theory Spec2Isabelle
  imports Complex_Main "HOL-Library.Sublist"
begin

section \<open>Values exchanged by the chat handler\<close>

text \<open>
  The development follows \<^verbatim>\<open>packages/api/src/functions/chat-post.ts\<close>: the handler
  \<^verbatim>\<open>postChat\<close> and the generator \<^verbatim>\<open>createJsonStream\<close>. A thrown JavaScript
  value is an \<^verbatim>\<open>Error\<close> carrying its \<^verbatim>\<open>message\<close>, as the handler's
  \<^verbatim>\<open>_error as Error\<close> reads it.
\<close>

datatype js_error = Error (message: string)

text \<open>
  An \<^verbatim>\<open>AsyncIterable\<close>: what a consumer sees when it pulls the values one by one. It
  yields a value and goes on, ends, or throws. The values are produced while the consumer
  pulls, so a \<open>Throw\<close> happens at the time of consumption.
\<close>

datatype 'a async_iterable = Done | Yield 'a "'a async_iterable" | Throw js_error

fun from_list :: "'a list \<Rightarrow> 'a async_iterable" where
  "from_list [] = Done"
| "from_list (x # xs) = Yield x (from_list xs)"

text \<open>
  The request body after the cast \<^verbatim>\<open>as AIChatCompletionRequest\<close>. The cast checks
  nothing, so every field the handler reads may be \<^verbatim>\<open>undefined\<close> (\<open>None\<close>), and a
  role is whatever string the caller sent.
\<close>

record chat_message =
  role :: "string option"
  content :: "string option"

record chat_request =
  messages :: "chat_message list option"

text \<open>
  What \<^verbatim>\<open>request.json()\<close> resolves to. JSON \<^verbatim>\<open>null\<close> is the one parsed value whose
  properties cannot be read; every other value is seen through the fields the handler
  reads, and a value without a \<^verbatim>\<open>messages\<close> property has \<open>messages = None\<close>.
\<close>

datatype parsed_json = JsonNull | JsonValue chat_request

text \<open>\<^verbatim>\<open>request.json()\<close> rejects when the body is not JSON.\<close>

record http_request =
  json :: "js_error + parsed_json"

datatype status = Ok | BadRequest | ServiceUnavailable

datatype body = Message string | Stream "string async_iterable"

record http_response =
  status :: status
  headers :: "(string \<times> string) list"
  body :: body

text \<open>
  The three helpers of \<^verbatim>\<open>../http-response.js\<close> are not among the sources; each is
  modelled from the specification of the HTTP surface.
\<close>

text \<open>
  Modelled from the spec: \<^verbatim>\<open>badRequest\<close> of \<^verbatim>\<open>../http-response.js\<close> is missing. A
  validation failure is answered with the \<^verbatim>\<open>BadRequest\<close> status and a plain-text
  explanation.
\<close>

definition badRequest :: "string \<Rightarrow> http_response" where
  "badRequest msg = \<lparr>status = BadRequest, headers = [], body = Message msg\<rparr>"

text \<open>
  Modelled from the spec: \<^verbatim>\<open>serviceUnavailable\<close> of \<^verbatim>\<open>../http-response.js\<close> is missing.
  A backend or generation failure is answered with the \<^verbatim>\<open>ServiceUnavailable\<close> status and
  the message it is given.
\<close>

definition serviceUnavailable :: "string \<Rightarrow> http_response" where
  "serviceUnavailable msg = \<lparr>status = ServiceUnavailable, headers = [], body = Message msg\<rparr>"

text \<open>
  Modelled from the spec: \<^verbatim>\<open>data\<close> of \<^verbatim>\<open>../http-response.js\<close> is missing. A success is
  answered with the success status, the given headers and the given stream as body.
\<close>

definition data :: "string async_iterable \<Rightarrow> (string \<times> string) list \<Rightarrow> http_response" where
  "data stream hs = \<lparr>status = Ok, headers = hs, body = Stream stream\<rparr>"

section \<open>\<^verbatim>\<open>JSON.stringify\<close> on the response chunks\<close>

text \<open>
  The handler serialises objects whose leaves are strings. \<^verbatim>\<open>JSON.stringify\<close> writes
  the members in insertion order, without white space, and quotes a string by escaping the
  double quote, the backslash and the control characters.
\<close>

datatype json_value = JString string | JObject "(string \<times> json_value) list"

definition hex_digit :: "nat \<Rightarrow> char" where
  "hex_digit n = ''0123456789abcdef'' ! (n mod 16)"

definition quote_char :: "char \<Rightarrow> string" where
  "quote_char c =
     (if c = CHR 0x08 then [CHR 0x5C, CHR ''b'']
      else if c = CHR 0x09 then [CHR 0x5C, CHR ''t'']
      else if c = CHR 0x0A then [CHR 0x5C, CHR ''n'']
      else if c = CHR 0x0C then [CHR 0x5C, CHR ''f'']
      else if c = CHR 0x0D then [CHR 0x5C, CHR ''r'']
      else if c = CHR 0x22 then [CHR 0x5C, CHR 0x22]
      else if c = CHR 0x5C then [CHR 0x5C, CHR 0x5C]
      else if (of_char c :: nat) < 32
        then [CHR 0x5C, CHR ''u'', CHR ''0'', CHR ''0'',
              hex_digit (of_char c div 16), hex_digit (of_char c)]
      else [c])"

definition quote_string :: "string \<Rightarrow> string" where
  "quote_string s = [CHR 0x22] @ concat (map quote_char s) @ [CHR 0x22]"

fun JSON_stringify :: "json_value \<Rightarrow> string"
  and stringify_members :: "(string \<times> json_value) list \<Rightarrow> string" where
  "JSON_stringify (JString s) = quote_string s"
| "JSON_stringify (JObject members) = ''{'' @ stringify_members members @ ''}''"
| "stringify_members [] = []"
| "stringify_members [(k, v)] = quote_string k @ '':'' @ JSON_stringify v"
| "stringify_members ((k, v) # m # members) =
     quote_string k @ '':'' @ JSON_stringify v @ '','' @ stringify_members (m # members)"

section \<open>\<^verbatim>\<open>createJsonStream\<close>\<close>

text \<open>The \<^verbatim>\<open>AIChatCompletionDelta\<close> built for one chunk.\<close>

definition responseChunk :: "string \<Rightarrow> json_value" where
  "responseChunk chunk =
     JObject [(''delta'', JObject [(''content'', JString chunk), (''role'', JString ''assistant'')])]"

text \<open>
  The generator: \<^verbatim>\<open>for await (const chunk of chunks)\<close>, \<^verbatim>\<open>if (!chunk) continue\<close> (a
  string is falsy when it is empty), else \<^verbatim>\<open>yield JSON.stringify(responseChunk) + '\n'\<close>.
  The generator has no \<^verbatim>\<open>try\<close>: when pulling from \<^verbatim>\<open>chunks\<close> throws, the generator
  throws to its own consumer.
\<close>

fun createJsonStream :: "string async_iterable \<Rightarrow> string async_iterable" where
  "createJsonStream Done = Done"
| "createJsonStream (Throw e) = Throw e"
| "createJsonStream (Yield chunk chunks) =
     (if chunk = [] then createJsonStream chunks
      else Yield (JSON_stringify (responseChunk chunk) @ ''\<newline>'') (createJsonStream chunks))"

section \<open>Backend objects and the outside world\<close>

text \<open>
  The objects the handler builds come from libraries. Each is kept as the constructor
  call that made it, with the arguments of the source.
\<close>

datatype credentials = Credentials

datatype token_provider = AzureADTokenProvider

datatype embeddings = AzureOpenAIEmbeddings token_provider | OllamaEmbeddings string

datatype chat_model = AzureChatOpenAI rat token_provider | ChatOllama rat string

datatype vector_store =
  AzureCosmosDBNoSQLVectorStore embeddings credentials
| FaissStore string embeddings

datatype retriever = VectorStoreRetriever vector_store nat

text \<open>A LangChain document: its text and its metadata, where the source name lives.\<close>

record document =
  pageContent :: string
  metadata :: "(string \<times> string) list"

text \<open>
  The chain of \<^verbatim>\<open>createStuffDocumentsChain\<close>: the model, the chat prompt as (role,
  template) pairs, the template of one document and the separator put between the
  rendered documents.
\<close>

record stuff_documents_chain =
  llm :: chat_model
  prompt :: "(string \<times> string) list"
  documentPrompt :: string
  documentSeparator :: string

text \<open>
  Every call that leaves the handler, with its arguments: the two helpers of
  \<^verbatim>\<open>../security.js\<close> (not among the sources; the handler only passes their results
  on), the constructors, the loading of the local index, and the steps of the pipeline.
\<close>

datatype call =
  GetCredentials
| GetAzureOpenAiTokenProvider
| NewEmbeddings embeddings
| NewChatModel chat_model
| NewVectorStore vector_store
| FaissStore_load string embeddings
| CreateStuffDocumentsChain stuff_documents_chain
| AsRetriever vector_store nat
| RetrieverInvoke retriever string
| RagChainStream stuff_documents_chain string "document list"

text \<open>What a run leaves behind: the calls it made, \<^verbatim>\<open>context.log\<close> and \<^verbatim>\<open>context.error\<close>.\<close>

datatype event = Called call | Log string | LogError string

text \<open>
  The world of one invocation: the environment variable, the constants of
  \<^verbatim>\<open>../constants.js\<close> (not among the sources, so taken as parameters), which calls
  throw, what the vector store returns for a query and what the chat model streams for a
  prompt.
\<close>

record world =
  AZURE_OPENAI_API_ENDPOINT :: "string option"
  ollamaEmbeddingsModel :: string
  ollamaChatModel :: string
  faissStoreFolder :: string
  raises :: "call \<Rightarrow> js_error option"
  similaritySearch :: "vector_store \<Rightarrow> string \<Rightarrow> nat \<Rightarrow> document list"
  chat_stream :: "chat_model \<Rightarrow> (string \<times> string) list \<Rightarrow> string async_iterable"

section \<open>Effects: a trace of events and exceptions\<close>

type_synonym 'a action = "event list \<Rightarrow> (js_error + 'a) \<times> event list"

definition returns :: "'a \<Rightarrow> 'a action" where
  "returns x = (\<lambda>tr. (Inr x, tr))"

definition throw :: "js_error \<Rightarrow> 'a action" where
  "throw e = (\<lambda>tr. (Inl e, tr))"

definition bind :: "'a action \<Rightarrow> ('a \<Rightarrow> 'b action) \<Rightarrow> 'b action" where
  "bind m f = (\<lambda>tr. case m tr of (Inl e, tr') \<Rightarrow> (Inl e, tr') | (Inr x, tr') \<Rightarrow> f x tr')"

definition lift :: "js_error + 'a \<Rightarrow> 'a action" where
  "lift r = (case r of Inl e \<Rightarrow> throw e | Inr x \<Rightarrow> returns x)"

definition emit :: "event \<Rightarrow> unit action" where
  "emit ev = (\<lambda>tr. (Inr (), tr @ [ev]))"

text \<open>An outside call is recorded, then throws or returns its result.\<close>

definition perform :: "world \<Rightarrow> call \<Rightarrow> 'a \<Rightarrow> 'a action" where
  "perform w c result =
     bind (emit (Called c))
       (\<lambda>_. case raises w c of Some e \<Rightarrow> throw e | None \<Rightarrow> returns result)"

section \<open>The library steps the handler relies on\<close>

text \<open>
  LangChain's f-string templates: \<^verbatim>\<open>{name}\<close> is replaced by the value of \<^verbatim>\<open>name\<close>;
  the values themselves are not parsed. The second argument is the name being read
  inside braces. The doubled braces of the library's escape syntax occur in none of the
  handler's three templates and are left out.
\<close>

fun interpolate :: "(string \<times> string) list \<Rightarrow> string option \<Rightarrow> string \<Rightarrow> js_error + string" where
  "interpolate vals None [] = Inr []"
| "interpolate vals (Some name) [] = Inl (Error ''Unclosed { in template.'')"
| "interpolate vals None (c # cs) =
     (if c = CHR ''{'' then interpolate vals (Some []) cs
      else if c = CHR ''}'' then Inl (Error ''Single } in template.'')
      else map_sum id ((#) c) (interpolate vals None cs))"
| "interpolate vals (Some name) (c # cs) =
     (if c = CHR ''}'' then
        (case map_of vals name of
           None \<Rightarrow> Inl (Error (''Missing value for input '' @ name))
         | Some v \<Rightarrow> map_sum id ((@) v) (interpolate vals None cs))
      else interpolate vals (Some (name @ [c])) cs)"

definition format :: "string \<Rightarrow> (string \<times> string) list \<Rightarrow> js_error + string" where
  "format template vals = interpolate vals None template"

text \<open>
  A document is formatted with \<^verbatim>\<open>{...document.metadata, page_content: document.pageContent}\<close>:
  the page content wins over a metadata entry of the same name.
\<close>

definition formatDocument :: "string \<Rightarrow> document \<Rightarrow> js_error + string" where
  "formatDocument template d = format template ((''page_content'', pageContent d) # metadata d)"

fun formatEach :: "string \<Rightarrow> document list \<Rightarrow> js_error + string list" where
  "formatEach template [] = Inr []"
| "formatEach template (d # ds) =
     (case formatDocument template d of
        Inl e \<Rightarrow> Inl e
      | Inr s \<Rightarrow> (case formatEach template ds of Inl e \<Rightarrow> Inl e | Inr ss \<Rightarrow> Inr (s # ss)))"

text \<open>\<^verbatim>\<open>Array.prototype.join\<close>.\<close>

fun join :: "string list \<Rightarrow> string \<Rightarrow> string" where
  "join [] sep = []"
| "join [s] sep = s"
| "join (s # t # ss) sep = s @ sep @ join (t # ss) sep"

definition formatDocuments :: "stuff_documents_chain \<Rightarrow> document list \<Rightarrow> js_error + string" where
  "formatDocuments chain documents =
     (case formatEach (documentPrompt chain) documents of
        Inl e \<Rightarrow> Inl e
      | Inr formattedDocs \<Rightarrow> Inr (join formattedDocs (documentSeparator chain)))"

fun formatMessages :: "(string \<times> string) list \<Rightarrow> (string \<times> string) list \<Rightarrow>
    js_error + (string \<times> string) list" where
  "formatMessages [] vals = Inr []"
| "formatMessages ((r, template) # ms) vals =
     (case format template vals of
        Inl e \<Rightarrow> Inl e
      | Inr s \<Rightarrow> (case formatMessages ms vals of Inl e \<Rightarrow> Inl e | Inr ps \<Rightarrow> Inr ((r, s) # ps)))"

text \<open>
  \<^verbatim>\<open>DEFAULT_DOCUMENT_SEPARATOR\<close> of LangChain's combine-documents chains, used by
  \<^verbatim>\<open>createStuffDocumentsChain\<close> when the caller passes no \<^verbatim>\<open>documentSeparator\<close>: two
  newlines.
\<close>

definition DEFAULT_DOCUMENT_SEPARATOR :: string where
  "DEFAULT_DOCUMENT_SEPARATOR = ''\<newline>\<newline>''"

definition createStuffDocumentsChain ::
    "world \<Rightarrow> chat_model \<Rightarrow> (string \<times> string) list \<Rightarrow> string \<Rightarrow> stuff_documents_chain action" where
  "createStuffDocumentsChain w model p dp =
     (let chain = \<lparr>llm = model, prompt = p, documentPrompt = dp,
                    documentSeparator = DEFAULT_DOCUMENT_SEPARATOR\<rparr>
      in perform w (CreateStuffDocumentsChain chain) chain)"

text \<open>
  The awaited \<^verbatim>\<open>stream\<close> of a LangChain runnable pulls the first chunk before it
  resolves: a stream that throws before any chunk rejects the call, and any other stream
  is handed over as it is.
\<close>

fun first_chunk :: "'a async_iterable \<Rightarrow> js_error + 'a async_iterable" where
  "first_chunk (Throw e) = Inl e"
| "first_chunk Done = Inr Done"
| "first_chunk (Yield x rest) = Inr (Yield x rest)"

text \<open>
  \<^verbatim>\<open>ragChain.stream({input, context})\<close>: the documents are rendered into the
  \<^verbatim>\<open>context\<close> variable, the chat prompt is filled in, and the model streams its answer
  for these messages. What fails up to the first chunk rejects the call; what fails later
  is a \<open>Throw\<close> inside the stream.
\<close>

definition ragChain_stream ::
    "world \<Rightarrow> stuff_documents_chain \<Rightarrow> string \<Rightarrow> document list \<Rightarrow> string async_iterable action" where
  "ragChain_stream w chain input documents =
     bind (perform w (RagChainStream chain input documents) ()) (\<lambda>_.
     bind (lift (formatDocuments chain documents)) (\<lambda>rendered.
     bind (lift (formatMessages (prompt chain) [(''input'', input), (''context'', rendered)])) (\<lambda>ms.
     lift (first_chunk (chat_stream w (llm chain) ms)))))"

text \<open>\<^verbatim>\<open>retriever.invoke(query)\<close> is the store's similarity search for the retriever's \<open>k\<close>.\<close>

fun retriever_invoke :: "world \<Rightarrow> retriever \<Rightarrow> string \<Rightarrow> document list action" where
  "retriever_invoke w (VectorStoreRetriever store k) query =
     perform w (RetrieverInvoke (VectorStoreRetriever store k) query) (similaritySearch w store query k)"

section \<open>The handler \<^verbatim>\<open>postChat\<close>\<close>

text \<open>The text of \<^verbatim>\<open>systemPrompt\<close> before its last line, which is \<^verbatim>\<open>{context}\<close>.\<close>

definition systemInstructions :: string where
  \<open>systemInstructions =
     ''\<newline>'' @
     ''Assistant helps potential migrants with questions related to migration projects, opportunities and constraints in destination countries. \<newline>'' @
     ''Be brief in your answers. Answer only plain text, DO NOT use Markdown.\<newline>'' @
     ''\<newline>'' @
     ''You are an AI assistant whose primary goal is to be warm, friendly, and highly empathetic. You should always respond with kindness, patience, and a helpful attitude, making sure the person you are talking to feels understood and supported. Use simple, plain language that \<newline>'' @
     ''anyone can easily understand, avoiding technical jargon or overly formal terms. Tailor your responses to match the emotional tone of the person, offering encouragement where appropriate, and ensuring that your advice or information is clear and accessible. Focus on building \<newline>'' @
     ''a positive connection, showing empathy, and always striving to make the conversation feel like talking to a trusted friend.\<newline>'' @
     ''\<newline>'' @
     ''Answer ONLY with information from the sources below. If there isn't enough information in the sources, say you don't know. Do not generate answers that don't use the sources. If asking a clarifying question to the user would help, ask the question.\<newline>'' @
     ''If the user question is not in English, answer in the language used in the question.\<newline>'' @
     ''If the user is asking a question about which country he or she should migrate to, please answer by asking age, gender, nationality, education level and languages spoken.\<newline>'' @
     ''If the user is giving characteristics such as age, gender, nationality, education level or languages spoken, please answer by recommending a country to migrate to between these 4 choices: France, England, United States, or Germany, based on all characteristics provided. \<newline>'' @
     ''Ponderate higher the influence of geographical distance and languages spoken. Tell the user that possibilities of successful integration in this country are the most likely. Don't add any citations.\<newline>'' @
     ''\<newline>'' @
     ''Each source has the format "[filename]: information". ALWAYS reference the source filename for every part used in the answer. Use the format "[filename]" to reference a source, for example: [info1.txt]. List each source separately, for example: [info1.txt][info2.pdf].\<newline>'' @
     ''\<newline>'' @
     ''Generate 3 very brief follow-up questions that the user would likely ask next.\<newline>'' @
     ''Enclose the follow-up questions in double angle brackets. Example:\<newline>'' @
     ''\<newline>'' @
     ''After a question related to Visa Requirements:\<newline>'' @
     ''<<How long does the visa application process take?>>\<newline>'' @
     ''<<What documents are required for the visa application?>>\<newline>'' @
     ''<<Are there any specific visa categories for skilled workers or students?>>\<newline>'' @
     ''<<What are the chances of my visa application being approved?>>\<newline>'' @
     ''\<newline>'' @
     ''After a question related to Job Opportunities:\<newline>'' @
     ''<<What are the most in-demand jobs in France?>>\<newline>'' @
     ''<<What is the average salary for my profession in France?>>\<newline>'' @
     ''<<Are there any job search websites or agencies you recommend?>>\<newline>'' @
     ''<<What is the work culture like in France?>>\<newline>'' @
     ''\<newline>'' @
     ''After a question related to Cost of Living:\<newline>'' @
     ''<<How much should I budget for monthly expenses?>>\<newline>'' @
     ''<<What are the average rental prices in major cities?>>\<newline>'' @
     ''<<How do transportation costs compare to my current country?>>\<newline>'' @
     ''<<Are there any hidden costs I should be aware of?>>\<newline>'' @
     ''\<newline>'' @
     ''After a question related to Housing:\<newline>'' @
     ''<<What are the best neighborhoods for expats in France?>>\<newline>'' @
     ''<<How can I find short-term accommodation while I search for a permanent place?>>\<newline>'' @
     ''<<What are the typical lease terms and conditions?>>\<newline>'' @
     ''<<Are there any housing scams I should watch out for?>>\<newline>'' @
     ''\<newline>'' @
     ''After a question related to Cultural Differences:\<newline>'' @
     ''<<What are the common social norms and etiquette?>>\<newline>'' @
     ''<<How can I learn the local language quickly?>>\<newline>'' @
     ''<<Are there any communities from my country or support groups?>>\<newline>'' @
     ''<<What are the major holidays and traditions?>>\<newline>'' @
     ''\<newline>'' @
     ''After a question related to General Moving Advice:\<newline>'' @
     ''<<What are the pros and cons of moving to France?>>\<newline>'' @
     ''<<How can I prepare for the move (e.g., packing, shipping belongings)?>>\<newline>'' @
     ''<<What should I do in the first few weeks after arriving?>>\<newline>'' @
     ''<<Are there any legal or financial considerations I should be aware of?>>\<newline>'' @
     ''\<newline>'' @
     ''Do no repeat questions that have already been asked.\<newline>'' @
     ''Make sure the last question ends with ">>".\<newline>'' @
     ''\<newline>'' @
     ''SOURCES:\<newline>''\<close>

definition systemPrompt :: string where
  "systemPrompt = systemInstructions @ ''{context}''"

text \<open>A JavaScript string is truthy when it is defined and not empty.\<close>

fun truthy :: "string option \<Rightarrow> bool" where
  "truthy None = False"
| "truthy (Some s) = (s \<noteq> [])"

text \<open>The two branches of \<^verbatim>\<open>if (azureOpenAiEndpoint)\<close>.\<close>

definition selectBackend :: "world \<Rightarrow> (embeddings \<times> chat_model \<times> vector_store) action" where
  "selectBackend w =
     (if truthy (AZURE_OPENAI_API_ENDPOINT w) then
        bind (perform w GetCredentials Credentials) (\<lambda>credentials.
        bind (perform w GetAzureOpenAiTokenProvider AzureADTokenProvider) (\<lambda>azureADTokenProvider.
        bind (perform w (NewEmbeddings (AzureOpenAIEmbeddings azureADTokenProvider))
                (AzureOpenAIEmbeddings azureADTokenProvider)) (\<lambda>embeddings.
        bind (perform w (NewChatModel (AzureChatOpenAI (7 / 10) azureADTokenProvider))
                (AzureChatOpenAI (7 / 10) azureADTokenProvider)) (\<lambda>model.
        bind (perform w (NewVectorStore (AzureCosmosDBNoSQLVectorStore embeddings credentials))
                (AzureCosmosDBNoSQLVectorStore embeddings credentials)) (\<lambda>store.
        returns (embeddings, model, store))))))
      else
        bind (emit (Log ''No Azure OpenAI endpoint set, using Ollama models and local DB'')) (\<lambda>_.
        bind (perform w (NewEmbeddings (OllamaEmbeddings (ollamaEmbeddingsModel w)))
                (OllamaEmbeddings (ollamaEmbeddingsModel w))) (\<lambda>embeddings.
        bind (perform w (NewChatModel (ChatOllama (7 / 10) (ollamaChatModel w)))
                (ChatOllama (7 / 10) (ollamaChatModel w))) (\<lambda>model.
        bind (perform w (FaissStore_load (faissStoreFolder w) embeddings)
                (FaissStore (faissStoreFolder w) embeddings)) (\<lambda>store.
        returns (embeddings, model, store))))))"

text \<open>
  The part of the \<^verbatim>\<open>try\<close> block after validation, for the \<^verbatim>\<open>question\<close>
  \<^verbatim>\<open>messages.at(-1)!.content\<close>. The argument object of \<^verbatim>\<open>ragChain.stream\<close> is
  evaluated first, so the retriever is invoked before the chain.
\<close>

definition answer :: "world \<Rightarrow> string \<Rightarrow> http_response action" where
  "answer w question =
     bind (selectBackend w) (\<lambda>(embeddings, model, store).
     bind (createStuffDocumentsChain w model
             [(''system'', systemPrompt), (''human'', ''{input}'')]
             ''[{source}]: {page_content}\<newline>'') (\<lambda>ragChain.
     bind (perform w (AsRetriever store 3) (VectorStoreRetriever store 3)) (\<lambda>retriever.
     bind (retriever_invoke w retriever question) (\<lambda>documents.
     bind (ragChain_stream w ragChain question documents) (\<lambda>responseStream.
     returns (data (createJsonStream responseStream)
                [(''Content-Type'', ''application/x-ndjson''),
                 (''Transfer-Encoding'', ''chunked'')]))))))"

text \<open>
  \<^verbatim>\<open>const { messages } = requestBody\<close>: destructuring \<^verbatim>\<open>null\<close> throws a
  \<^verbatim>\<open>TypeError\<close>.
\<close>

fun destructure :: "parsed_json \<Rightarrow> js_error + chat_request" where
  "destructure JsonNull =
     Inl (Error ''Cannot destructure property 'messages' of 'requestBody' as it is null.'')"
| "destructure (JsonValue requestBody) = Inr requestBody"

text \<open>
  The \<^verbatim>\<open>try\<close> block. The test
  \<^verbatim>\<open>!messages || messages.length === 0 || !messages.at(-1)?.content\<close> is taken one
  disjunct at a time; where it fails, the last message has a non-empty content, the
  \<^verbatim>\<open>question\<close>.
\<close>

definition postChat_try :: "world \<Rightarrow> http_request \<Rightarrow> http_response action" where
  "postChat_try w request =
     bind (lift (json request)) (\<lambda>parsed.
     bind (lift (destructure parsed)) (\<lambda>requestBody.
       case messages requestBody of
         None \<Rightarrow> returns (badRequest ''Invalid or missing messages in the request body'')
       | Some msgs \<Rightarrow>
           if length msgs = 0
           then returns (badRequest ''Invalid or missing messages in the request body'')
           else (case content (last msgs) of
                   None \<Rightarrow> returns (badRequest ''Invalid or missing messages in the request body'')
                 | Some question \<Rightarrow>
                     if question = []
                     then returns (badRequest ''Invalid or missing messages in the request body'')
                     else answer w question)))"

text \<open>
  The handler: the \<^verbatim>\<open>try\<close> block, and the \<^verbatim>\<open>catch\<close> that logs the message of
  whatever was thrown and answers with a fixed text. It returns the response and the
  trace of the run.
\<close>

definition postChat :: "world \<Rightarrow> http_request \<Rightarrow> http_response \<times> event list" where
  "postChat w request =
     (case postChat_try w request [] of
        (Inr response, tr) \<Rightarrow> (response, tr)
      | (Inl error, tr) \<Rightarrow>
          (serviceUnavailable ''Service temporarily unavailable. Please try again later.'',
           tr @ [LogError (''Error when processing chat-post request: '' @ message error)]))"

section \<open>Reading a trace\<close>

text \<open>The error that ends a stream, if it ends with one.\<close>

fun failure :: "'a async_iterable \<Rightarrow> js_error option" where
  "failure Done = None"
| "failure (Throw e) = Some e"
| "failure (Yield x rest) = failure rest"

text \<open>The calls of a trace, in order.\<close>

fun calls_of :: "event list \<Rightarrow> call list" where
  "calls_of [] = []"
| "calls_of (Called c # evs) = c # calls_of evs"
| "calls_of (ev # evs) = calls_of evs"

text \<open>The constructors of the cloud branch and of the local branch.\<close>

fun cloud_construction :: "call \<Rightarrow> bool" where
  "cloud_construction (NewEmbeddings (AzureOpenAIEmbeddings _)) = True"
| "cloud_construction (NewChatModel (AzureChatOpenAI _ _)) = True"
| "cloud_construction (NewVectorStore (AzureCosmosDBNoSQLVectorStore _ _)) = True"
| "cloud_construction _ = False"

fun local_construction :: "call \<Rightarrow> bool" where
  "local_construction (NewEmbeddings (OllamaEmbeddings _)) = True"
| "local_construction (NewChatModel (ChatOllama _ _)) = True"
| "local_construction (NewVectorStore (FaissStore _ _)) = True"
| "local_construction (FaissStore_load _ _) = True"
| "local_construction _ = False"

fun is_search :: "call \<Rightarrow> bool" where
  "is_search (RetrieverInvoke _ _) = True"
| "is_search _ = False"


section \<open>The straight-line shape of a run\<close>

text \<open>
  The handler has no loop and no branch after the choice of the backend, so a run is a
  fixed list of calls, cut short at the first one that throws. \<open>run_calls\<close> performs
  such a list and goes on with \<open>k\<close>; \<open>attempt\<close> computes where it stops.
\<close>

fun run_calls :: "world \<Rightarrow> call list \<Rightarrow> 'a action \<Rightarrow> 'a action" where
  "run_calls w [] k = k"
| "run_calls w (c # cs) k = bind (perform w c ()) (\<lambda>_. run_calls w cs k)"

fun attempt :: "world \<Rightarrow> call list \<Rightarrow> event list \<Rightarrow> js_error option \<times> event list" where
  "attempt w [] tr = (None, tr)"
| "attempt w (c # cs) tr =
     (case raises w c of
        Some e \<Rightarrow> (Some e, tr @ [Called c])
      | None \<Rightarrow> attempt w cs (tr @ [Called c]))"

text \<open>The objects of the two branches, and the chain built around a model.\<close>

definition selected_model :: "world \<Rightarrow> chat_model" where
  "selected_model w =
     (if truthy (AZURE_OPENAI_API_ENDPOINT w) then AzureChatOpenAI (7 / 10) AzureADTokenProvider
      else ChatOllama (7 / 10) (ollamaChatModel w))"

definition selected_store :: "world \<Rightarrow> vector_store" where
  "selected_store w =
     (if truthy (AZURE_OPENAI_API_ENDPOINT w)
      then AzureCosmosDBNoSQLVectorStore (AzureOpenAIEmbeddings AzureADTokenProvider) Credentials
      else FaissStore (faissStoreFolder w) (OllamaEmbeddings (ollamaEmbeddingsModel w)))"

definition ragChain_of :: "chat_model \<Rightarrow> stuff_documents_chain" where
  "ragChain_of model =
     \<lparr>llm = model, prompt = [(''system'', systemPrompt), (''human'', ''{input}'')],
      documentPrompt = ''[{source}]: {page_content}\<newline>'',
      documentSeparator = DEFAULT_DOCUMENT_SEPARATOR\<rparr>"

definition construction_calls :: "world \<Rightarrow> call list" where
  "construction_calls w =
     (if truthy (AZURE_OPENAI_API_ENDPOINT w) then
        [GetCredentials, GetAzureOpenAiTokenProvider,
         NewEmbeddings (AzureOpenAIEmbeddings AzureADTokenProvider),
         NewChatModel (AzureChatOpenAI (7 / 10) AzureADTokenProvider),
         NewVectorStore
           (AzureCosmosDBNoSQLVectorStore (AzureOpenAIEmbeddings AzureADTokenProvider) Credentials)]
      else
        [NewEmbeddings (OllamaEmbeddings (ollamaEmbeddingsModel w)),
         NewChatModel (ChatOllama (7 / 10) (ollamaChatModel w)),
         FaissStore_load (faissStoreFolder w) (OllamaEmbeddings (ollamaEmbeddingsModel w))])"

definition pipeline_calls :: "world \<Rightarrow> string \<Rightarrow> call list" where
  "pipeline_calls w question =
     [CreateStuffDocumentsChain (ragChain_of (selected_model w)),
      AsRetriever (selected_store w) 3,
      RetrieverInvoke (VectorStoreRetriever (selected_store w) 3) question,
      RagChainStream (ragChain_of (selected_model w)) question
        (similaritySearch w (selected_store w) question 3)]"

definition fallback_log :: "world \<Rightarrow> event list" where
  "fallback_log w =
     (if truthy (AZURE_OPENAI_API_ENDPOINT w) then []
      else [Log ''No Azure OpenAI endpoint set, using Ollama models and local DB''])"

text \<open>
  The end of a run in which no call has thrown: rendering, prompt, first chunk, response.
\<close>

definition finish :: "world \<Rightarrow> string \<Rightarrow> js_error + http_response" where
  "finish w question =
     (case formatDocuments (ragChain_of (selected_model w))
             (similaritySearch w (selected_store w) question 3) of
        Inl e \<Rightarrow> Inl e
      | Inr rendered \<Rightarrow>
          (case first_chunk
                  (chat_stream w (selected_model w)
                     [(''system'', systemInstructions @ rendered), (''human'', question)]) of
             Inl e \<Rightarrow> Inl e
           | Inr responseStream \<Rightarrow>
               Inr (data (createJsonStream responseStream)
                      [(''Content-Type'', ''application/x-ndjson''),
                       (''Transfer-Encoding'', ''chunked'')])))"

text \<open>The calls of a list that are made, and the error that stops them, if any.\<close>

fun performed :: "world \<Rightarrow> call list \<Rightarrow> call list" where
  "performed w [] = []"
| "performed w (c # cs) = c # (case raises w c of Some e \<Rightarrow> [] | None \<Rightarrow> performed w cs)"

fun first_error :: "world \<Rightarrow> call list \<Rightarrow> js_error option" where
  "first_error w [] = None"
| "first_error w (c # cs) = (case raises w c of Some e \<Rightarrow> Some e | None \<Rightarrow> first_error w cs)"

definition planned_calls :: "world \<Rightarrow> string \<Rightarrow> call list" where
  "planned_calls w question = construction_calls w @ pipeline_calls w question"

section \<open>Sample worlds and requests\<close>

definition example_documents :: "document list" where
  "example_documents =
     [\<lparr>pageContent = ''X'', metadata = [(''source'', ''a.txt'')]\<rparr>,
      \<lparr>pageContent = ''Y'', metadata = [(''source'', ''b.txt'')]\<rparr>]"

text \<open>No endpoint is set, no call throws, the model streams three fragments.\<close>

definition local_world :: world where
  "local_world =
     \<lparr>AZURE_OPENAI_API_ENDPOINT = None,
      ollamaEmbeddingsModel = ''all-minilm'',
      ollamaChatModel = ''llama3'',
      faissStoreFolder = ''.faiss'',
      raises = (\<lambda>c. None),
      similaritySearch = (\<lambda>store query k. take k example_documents),
      chat_stream = (\<lambda>model ms. from_list [''Hel'', ''lo'', ''''])\<rparr>"

definition cloud_world :: world where
  "cloud_world = local_world\<lparr>AZURE_OPENAI_API_ENDPOINT := Some ''https://example.openai.azure.com''\<rparr>"

text \<open>The endpoint variable is set, to the empty string.\<close>

definition empty_endpoint_world :: world where
  "empty_endpoint_world = local_world\<lparr>AZURE_OPENAI_API_ENDPOINT := Some []\<rparr>"

text \<open>The similarity search throws.\<close>

definition search_fails_world :: world where
  "search_fails_world =
     local_world\<lparr>raises := (\<lambda>c. if is_search c then Some (Error ''index unavailable'') else None)\<rparr>"

text \<open>The constructor of the cloud embedder throws.\<close>

definition embedder_fails_world :: world where
  "embedder_fails_world =
     cloud_world\<lparr>raises :=
       (\<lambda>c. if c = NewEmbeddings (AzureOpenAIEmbeddings AzureADTokenProvider)
            then Some (Error ''missing deployment'') else None)\<rparr>"

text \<open>A retrieved document has no source in its metadata.\<close>

definition unnamed_document_world :: world where
  "unnamed_document_world =
     local_world\<lparr>similaritySearch :=
       (\<lambda>store query k. [\<lparr>pageContent = ''X'', metadata = [(''title'', ''a'')]\<rparr>])\<rparr>"

text \<open>The model fails before its first fragment.\<close>

definition model_down_world :: world where
  "model_down_world =
     local_world\<lparr>chat_stream := (\<lambda>model ms. Throw (Error ''model not loaded''))\<rparr>"

text \<open>The model streams one fragment, then the connection breaks.\<close>

definition stream_breaks_world :: world where
  "stream_breaks_world =
     local_world\<lparr>chat_stream := (\<lambda>model ms. Yield ''Hel'' (Throw (Error ''connection reset'')))\<rparr>"

definition one_message_request :: http_request where
  "one_message_request =
     \<lparr>json = Inr (JsonValue \<lparr>messages = Some [\<lparr>role = Some ''user'', content = Some ''Where should I move?''\<rparr>]\<rparr>)\<rparr>"

definition three_message_request :: http_request where
  "three_message_request =
     \<lparr>json = Inr (JsonValue \<lparr>messages = Some
        [\<lparr>role = Some ''user'', content = Some ''Hello''\<rparr>,
         \<lparr>role = Some ''assistant'', content = Some ''How can I help?''\<rparr>,
         \<lparr>role = Some ''user'', content = Some ''Where should I move?''\<rparr>]\<rparr>)\<rparr>"

definition odd_roles_request :: http_request where
  "odd_roles_request =
     \<lparr>json = Inr (JsonValue \<lparr>messages = Some
        [\<lparr>role = None, content = Some ''Hello''\<rparr>,
         \<lparr>role = Some ''wizard'', content = Some ''Where should I move?''\<rparr>]\<rparr>)\<rparr>"



definition unparseable_request :: http_request where
  "unparseable_request = \<lparr>json = Inl (Error ''Unexpected token h in JSON at position 0'')\<rparr>"

section \<open>Properties of the transcoder\<close>

lemma hex_digit_in: "hex_digit n \<in> set ''0123456789abcdef''"
  unfolding hex_digit_def by (rule nth_mem) simp

lemma hex_digit_not_newline: "hex_digit n \<noteq> CHR ''\<newline>''"
  using hex_digit_in [of n] by auto

lemma quote_char_no_newline: "CHR ''\<newline>'' \<notin> set (quote_char c)"
  by (simp add: quote_char_def hex_digit_not_newline [symmetric])

lemma quote_string_no_newline: "CHR ''\<newline>'' \<notin> set (quote_string s)"
  by (simp add: quote_string_def quote_char_no_newline)

lemma createJsonStream_from_list:
  "createJsonStream (from_list fragments) =
     from_list (map (\<lambda>fragment. JSON_stringify (responseChunk fragment) @ ''\<newline>'')
                  (filter (\<lambda>fragment. fragment \<noteq> []) fragments))"
  by (induction fragments) simp_all

text \<open>
  C3. For a finite sequence of fragments the transcoder yields, in order, one line per
  non-empty fragment and nothing for an empty one. A line is the serialisation of
  \<^verbatim>\<open>{delta: {content: fragment, role: "assistant"}}\<close> followed by a newline, and this
  newline is the only one in the line. The fragments \<^verbatim>\<open>["Hel", "lo", ""]\<close> give the two
  lines of the specification.
\<close>

theorem createJsonStream_ndjson:
  \<open>createJsonStream (from_list fragments) =
     from_list
       (map (\<lambda>fragment.
               JSON_stringify
                 (JObject [(''delta'',
                    JObject [(''content'', JString fragment), (''role'', JString ''assistant'')])])
               @ ''\<newline>'')
          (filter (\<lambda>fragment. fragment \<noteq> []) fragments))
   \<and> count_list (JSON_stringify (responseChunk fragment) @ ''\<newline>'') CHR ''\<newline>'' = 1
   \<and> createJsonStream (from_list [''Hel'', ''lo'', '''']) =
     from_list [''{"delta":{"content":"Hel","role":"assistant"}}\<newline>'',
                ''{"delta":{"content":"lo","role":"assistant"}}\<newline>'']\<close>
proof (intro conjI)
  show \<open>createJsonStream (from_list fragments) =
     from_list
       (map (\<lambda>fragment.
               JSON_stringify
                 (JObject [(''delta'',
                    JObject [(''content'', JString fragment), (''role'', JString ''assistant'')])])
               @ ''\<newline>'')
          (filter (\<lambda>fragment. fragment \<noteq> []) fragments))\<close>
    using createJsonStream_from_list [of fragments] by (simp add: responseChunk_def)
next
  have "CHR ''\<newline>'' \<notin> set (JSON_stringify (responseChunk fragment))"
    using quote_string_no_newline [of fragment]
    by (simp add: responseChunk_def quote_string_def quote_char_def)
  then show "count_list (JSON_stringify (responseChunk fragment) @ ''\<newline>'') CHR ''\<newline>'' = 1"
    by simp
next
  show \<open>createJsonStream (from_list [''Hel'', ''lo'', '''']) =
     from_list [''{"delta":{"content":"Hel","role":"assistant"}}\<newline>'',
                ''{"delta":{"content":"lo","role":"assistant"}}\<newline>'']\<close>
    by (simp add: responseChunk_def quote_string_def quote_char_def)
qed

section \<open>Running the effects\<close>

lemma bind_run:
  "bind m f tr = (case m tr of (Inl e, tr') \<Rightarrow> (Inl e, tr') | (Inr x, tr') \<Rightarrow> f x tr')"
  by (simp add: bind_def)

lemma returns_run: "returns x tr = (Inr x, tr)"
  by (simp add: returns_def)

lemma throw_run: "throw e tr = (Inl e, tr)"
  by (simp add: throw_def)

lemma lift_run: "lift r tr = (case r of Inl e \<Rightarrow> (Inl e, tr) | Inr x \<Rightarrow> (Inr x, tr))"
  by (simp add: lift_def throw_def returns_def split: sum.split)

lemma emit_run: "emit ev tr = (Inr (), tr @ [ev])"
  by (simp add: emit_def)

lemma perform_run:
  "perform w c x tr =
     (case raises w c of Some e \<Rightarrow> (Inl e, tr @ [Called c]) | None \<Rightarrow> (Inr x, tr @ [Called c]))"
  by (simp add: perform_def bind_def emit_def throw_def returns_def split: option.split)

lemma bind_perform:
  "bind (perform w c x) f tr =
     (case raises w c of Some e \<Rightarrow> (Inl e, tr @ [Called c]) | None \<Rightarrow> f x (tr @ [Called c]))"
  by (simp add: bind_def perform_run split: option.split)

lemma bind_emit: "bind (emit ev) f tr = f () (tr @ [ev])"
  by (simp add: bind_def emit_def)

lemma bind_lift:
  "bind (lift r) f tr = (case r of Inl e \<Rightarrow> (Inl e, tr) | Inr x \<Rightarrow> f x tr)"
  by (simp add: bind_def lift_run split: sum.split)

lemma bind_assoc: "bind (bind m f) g = bind m (\<lambda>x. bind (f x) g)"
  by (auto simp: bind_def fun_eq_iff split: prod.split sum.split)

lemma bind_returns: "bind (returns x) f = f x"
  by (simp add: bind_def returns_def)

lemma bind_throw: "bind (throw e) f = throw e"
  by (simp add: bind_def throw_def)

lemma lift_Inr: "lift (Inr x) = returns x"
  by (simp add: lift_def)

lemma bind_if: "bind (if b then m else n) f = (if b then bind m f else bind n f)"
  by simp

lemma bind_lift_Inr: "bind (lift (Inr x)) f = f x"
  by (simp add: fun_eq_iff bind_lift)

lemma bind_lift_Inl: "bind (lift (Inl e)) f = throw e"
  by (simp add: fun_eq_iff bind_lift throw_run)

section \<open>Validation\<close>

lemma postChat_try_valid:
  assumes "json request = Inr (JsonValue requestBody)" and "messages requestBody = Some msgs"
    and "msgs \<noteq> []" and "content (last msgs) = Some question" and "question \<noteq> []"
  shows "postChat_try w request = answer w question"
  using assms by (simp add: postChat_try_def bind_lift_Inr)

lemma postChat_try_role:
  "postChat_try w \<lparr>json = Inr (JsonValue \<lparr>messages = map_option (map (\<lambda>m. m\<lparr>role := r m\<rparr>)) ms\<rparr>)\<rparr> =
   postChat_try w \<lparr>json = Inr (JsonValue \<lparr>messages = ms\<rparr>)\<rparr>"
proof (cases ms)
  case None
  then show ?thesis by (simp add: postChat_try_def bind_lift_Inr)
next
  case (Some msgs)
  then show ?thesis
    by (cases "msgs = []") (simp_all add: postChat_try_def bind_lift_Inr last_map)
qed

section \<open>Templates\<close>

lemma interpolate_literal:
  "CHR ''{'' \<notin> set xs \<Longrightarrow> CHR ''}'' \<notin> set xs \<Longrightarrow>
   interpolate vals None (xs @ ys) = map_sum id ((@) xs) (interpolate vals None ys)"
proof (induction xs)
  case Nil
  show ?case by (simp add: sum.map_id0 fun_eq_iff map_sum.identity)
next
  case (Cons x xs)
  then show ?case by (auto simp: sum.map_comp comp_def)
qed

lemma systemInstructions_plain:
  "CHR ''{'' \<notin> set systemInstructions \<and> CHR ''}'' \<notin> set systemInstructions"
  by (simp add: systemInstructions_def)

lemma format_systemPrompt:
  "format systemPrompt [(''input'', q), (''context'', rendered)] = Inr (systemInstructions @ rendered)"
  by (simp add: format_def systemPrompt_def interpolate_literal systemInstructions_plain)

lemma formatMessages_prompt:
  "formatMessages [(''system'', systemPrompt), (''human'', ''{input}'')]
     [(''input'', q), (''context'', rendered)] =
   Inr [(''system'', systemInstructions @ rendered), (''human'', q)]"
  by (simp add: format_systemPrompt) (simp add: format_def)

section \<open>The handler as a list of calls\<close>

lemma perform_as_run_calls: "bind (perform w c x) f = run_calls w [c] (f x)"
  by (auto simp: fun_eq_iff bind_def perform_run split: option.split)

lemma run_calls_append: "run_calls w (cs @ ds) k = run_calls w cs (run_calls w ds k)"
  by (induction cs) simp_all

lemma run_calls_attempt:
  "run_calls w cs k tr =
     (case attempt w cs tr of (Some e, tr') \<Rightarrow> (Inl e, tr') | (None, tr') \<Rightarrow> k tr')"
  by (induction cs arbitrary: tr) (simp_all add: bind_perform split: option.split)

lemma run_calls_bind: "bind (run_calls w cs k) f = run_calls w cs (bind k f)"
  by (induction cs) (simp_all add: bind_assoc)

lemma run_calls_Cons2:
  "run_calls w (c # c' # cs) k = run_calls w [c] (run_calls w (c' # cs) k)"
  by simp

lemma bind_lift_returns:
  "bind (lift r) (\<lambda>x. returns (g x)) = lift (case r of Inl e \<Rightarrow> Inl e | Inr x \<Rightarrow> Inr (g x))"
  by (cases r) (simp_all add: lift_def bind_throw bind_returns)

lemma bind_lift_lift:
  "bind (lift r) (\<lambda>x. lift (h x)) = lift (case r of Inl e \<Rightarrow> Inl e | Inr x \<Rightarrow> h x)"
  by (cases r) (simp_all add: lift_def bind_throw bind_returns)

lemma case_sum_nested:
  "(case (case r of Inl e \<Rightarrow> Inl e | Inr x \<Rightarrow> h x) of Inl e \<Rightarrow> Inl e | Inr y \<Rightarrow> g y) =
   (case r of Inl e \<Rightarrow> Inl e | Inr x \<Rightarrow> (case h x of Inl e \<Rightarrow> Inl e | Inr y \<Rightarrow> g y))"
  by (cases r) simp_all

lemma answer_run_calls:
  "answer w question tr =
     run_calls w (construction_calls w @ pipeline_calls w question) (lift (finish w question))
       (tr @ fallback_log w)"
proof (cases "truthy (AZURE_OPENAI_API_ENDPOINT w)")
  case True
  then have "answer w question =
     run_calls w (construction_calls w @ pipeline_calls w question) (lift (finish w question))"
    by (simp add: answer_def selectBackend_def createStuffDocumentsChain_def ragChain_stream_def
        construction_calls_def pipeline_calls_def finish_def selected_model_def selected_store_def
        ragChain_of_def Let_def bind_assoc bind_returns perform_as_run_calls run_calls_Cons2
        formatMessages_prompt bind_lift_Inr bind_lift_returns bind_lift_lift case_sum_nested run_calls_bind
        del: run_calls.simps formatMessages.simps cong: sum.case_cong)
  with True show ?thesis by (simp add: fallback_log_def)
next
  case False
  then have "answer w question tr =
     run_calls w (construction_calls w @ pipeline_calls w question) (lift (finish w question))
       (tr @ [Log ''No Azure OpenAI endpoint set, using Ollama models and local DB''])"
    by (simp add: answer_def selectBackend_def createStuffDocumentsChain_def ragChain_stream_def
        construction_calls_def pipeline_calls_def finish_def selected_model_def selected_store_def
        ragChain_of_def Let_def bind_assoc bind_returns bind_emit perform_as_run_calls
        run_calls_Cons2 formatMessages_prompt bind_lift_Inr bind_lift_returns bind_lift_lift case_sum_nested run_calls_bind
        del: run_calls.simps formatMessages.simps cong: sum.case_cong)
  with False show ?thesis by (simp add: fallback_log_def)
qed

text \<open>
  The whole of \<open>answer\<close>: the calls are attempted in order; the first that throws ends
  the run with its error, and otherwise the run ends with \<open>finish\<close>.
\<close>

lemma answer_attempt:
  "answer w question tr =
     (case attempt w (construction_calls w @ pipeline_calls w question) (tr @ fallback_log w) of
        (Some e, tr') \<Rightarrow> (Inl e, tr')
      | (None, tr') \<Rightarrow> (case finish w question of Inl e \<Rightarrow> (Inl e, tr') | Inr r \<Rightarrow> (Inr r, tr')))"
  by (simp add: answer_run_calls run_calls_attempt lift_run split: prod.split option.split)

section \<open>The trace of a run\<close>

lemma attempt_eq: "attempt w cs tr = (first_error w cs, tr @ map Called (performed w cs))"
  by (induction cs arbitrary: tr) (simp_all split: option.split)

lemma performed_prefix: "prefix (performed w cs) cs"
  by (induction cs) (simp_all split: option.split)

lemma performed_all: "first_error w cs = None \<Longrightarrow> performed w cs = cs"
  by (induction cs) (simp_all split: option.splits)

lemma first_error_None_iff: "first_error w cs = None \<longleftrightarrow> (\<forall>c \<in> set cs. raises w c = None)"
  by (induction cs) (auto split: option.splits)

lemma performed_quiet: "\<forall>c \<in> set (performed w cs). raises w c = None \<Longrightarrow> first_error w cs = None"
  by (induction cs) (auto split: option.splits)

lemma performed_raises:
  "c \<in> set (performed w cs) \<Longrightarrow> raises w c = Some e \<Longrightarrow> first_error w cs = Some e"
  by (induction cs) (auto split: option.splits)

lemma performed_append:
  "performed w (cs @ ds) =
     performed w cs @ (case first_error w cs of Some e \<Rightarrow> [] | None \<Rightarrow> performed w ds)"
  by (induction cs) (simp_all split: option.split)

lemma calls_of_append: "calls_of (xs @ ys) = calls_of xs @ calls_of ys"
  by (induction xs rule: calls_of.induct) simp_all

lemma calls_of_Called: "calls_of (map Called cs) = cs"
  by (induction cs) simp_all

lemma calls_of_fallback_log: "calls_of (fallback_log w) = []"
  by (simp add: fallback_log_def)

lemma Called_in_iff: "Called c \<in> set tr \<longleftrightarrow> c \<in> set (calls_of tr)"
  by (induction tr rule: calls_of.induct) auto

text \<open>The outcome of the handler on a request that passes validation.\<close>

lemma postChat_valid:
  assumes "json request = Inr (JsonValue requestBody)" and "messages requestBody = Some msgs"
    and "msgs \<noteq> []" and "content (last msgs) = Some question" and "question \<noteq> []"
  shows "postChat w request =
     (case first_error w (planned_calls w question) of
        Some e \<Rightarrow>
          (serviceUnavailable ''Service temporarily unavailable. Please try again later.'',
           fallback_log w @ map Called (performed w (planned_calls w question)) @
           [LogError (''Error when processing chat-post request: '' @ message e)])
      | None \<Rightarrow>
          (case finish w question of
             Inl e \<Rightarrow>
               (serviceUnavailable ''Service temporarily unavailable. Please try again later.'',
                fallback_log w @ map Called (performed w (planned_calls w question)) @
                [LogError (''Error when processing chat-post request: '' @ message e)])
           | Inr response \<Rightarrow>
               (response, fallback_log w @ map Called (performed w (planned_calls w question)))))"
  using postChat_try_valid [OF assms, of w]
  by (simp add: postChat_def answer_attempt attempt_eq planned_calls_def
      split: option.split sum.split)

lemma calls_of_postChat_valid:
  assumes "json request = Inr (JsonValue requestBody)" and "messages requestBody = Some msgs"
    and "msgs \<noteq> []" and "content (last msgs) = Some question" and "question \<noteq> []"
  shows "calls_of (snd (postChat w request)) = performed w (planned_calls w question)"
  by (simp add: postChat_valid [OF assms] calls_of_append calls_of_Called calls_of_fallback_log
      split: option.split sum.split)

lemma first_chunk_Inr: "first_chunk s = Inr s' \<longleftrightarrow> s' = s \<and> (\<forall>e. s \<noteq> Throw e)"
  by (cases s) auto

lemma first_chunk_Inl: "first_chunk s = Inl e \<longleftrightarrow> s = Throw e"
  by (cases s) auto

lemma failure_createJsonStream: "failure (createJsonStream s) = failure s"
  by (induction s) simp_all

lemma finish_data:
  "finish w question = Inr response \<Longrightarrow>
   \<exists>rendered.
     formatDocuments (ragChain_of (selected_model w))
       (similaritySearch w (selected_store w) question 3) = Inr rendered \<and>
     response =
       data (createJsonStream
               (chat_stream w (selected_model w)
                  [(''system'', systemInstructions @ rendered), (''human'', question)]))
         [(''Content-Type'', ''application/x-ndjson''), (''Transfer-Encoding'', ''chunked'')]"
  by (auto simp: finish_def first_chunk_Inr split: sum.splits)

section \<open>Claims about validation\<close>

text \<open>
  C1, as amended. \<^verbatim>\<open>request.json()\<close> is awaited inside the \<^verbatim>\<open>try\<close> block, so a body that
  is not JSON ends in the \<^verbatim>\<open>catch\<close>: the handler answers \<^verbatim>\<open>ServiceUnavailable\<close> with the
  fixed text and logs the parser's message; it makes no call to a backend constructor, to
  retrieval or to generation.
\<close>

theorem postChat_unparseable:
  "postChat w \<lparr>json = Inl e\<rparr> =
     (serviceUnavailable ''Service temporarily unavailable. Please try again later.'',
      [LogError (''Error when processing chat-post request: '' @ message e)])
   \<and> status (fst (postChat w \<lparr>json = Inl e\<rparr>)) = ServiceUnavailable
   \<and> calls_of (snd (postChat w \<lparr>json = Inl e\<rparr>)) = []"
  by (simp add: postChat_def postChat_try_def bind_lift_Inl throw_run serviceUnavailable_def)

text \<open>
  C1 as stated fails: the sample request whose body does not parse is not answered with
  \<^verbatim>\<open>BadRequest\<close>.
\<close>

theorem postChat_unparseable_not_BadRequest:
  "status (fst (postChat local_world unparseable_request)) = ServiceUnavailable
   \<and> status (fst (postChat local_world unparseable_request)) \<noteq> BadRequest"
  by (simp add: unparseable_request_def postChat_def postChat_try_def bind_lift_Inl throw_run
      serviceUnavailable_def)




lemma valid_response_status:
  assumes "json request = Inr (JsonValue requestBody)" and "messages requestBody = Some msgs"
    and "msgs \<noteq> []" and "content (last msgs) = Some question" and "question \<noteq> []"
  shows "status (fst (postChat w request)) = ServiceUnavailable
         \<or> status (fst (postChat w request)) = Ok"
  by (auto simp: postChat_valid [OF assms] serviceUnavailable_def data_def
      split: option.split sum.split dest!: finish_data)

lemma planned_calls_first:
  "\<exists>cs. fallback_log w @ map Called (performed w (planned_calls w question)) =
     (if truthy (AZURE_OPENAI_API_ENDPOINT w) then Called GetCredentials
      else Log ''No Azure OpenAI endpoint set, using Ollama models and local DB'') # cs"
  by (simp add: planned_calls_def construction_calls_def fallback_log_def)

lemma valid_first_event:
  assumes "json request = Inr (JsonValue requestBody)" and "messages requestBody = Some msgs"
    and "msgs \<noteq> []" and "content (last msgs) = Some question" and "question \<noteq> []"
  shows "\<exists>evs. snd (postChat w request) =
     (if truthy (AZURE_OPENAI_API_ENDPOINT w) then Called GetCredentials
      else Log ''No Azure OpenAI endpoint set, using Ollama models and local DB'') # evs"
proof -
  obtain cs where cs: "fallback_log w @ map Called (performed w (planned_calls w question)) =
     (if truthy (AZURE_OPENAI_API_ENDPOINT w) then Called GetCredentials
      else Log ''No Azure OpenAI endpoint set, using Ollama models and local DB'') # cs"
    using planned_calls_first by blast
  have "snd (postChat w request) = fallback_log w @ map Called (performed w (planned_calls w question))
      \<or> (\<exists>m. snd (postChat w request) =
            (fallback_log w @ map Called (performed w (planned_calls w question))) @ [LogError m])"
    by (auto simp: postChat_valid [OF assms] split: option.split sum.split)
  then show ?thesis
    using cs by (metis append_Cons)
qed

lemma postChat_role:
  "postChat w \<lparr>json = Inr (JsonValue \<lparr>messages = map_option (map (\<lambda>m. m\<lparr>role := r m\<rparr>)) ms\<rparr>)\<rparr> =
   postChat w \<lparr>json = Inr (JsonValue \<lparr>messages = ms\<rparr>)\<rparr>"
  by (simp add: postChat_def postChat_try_role)

text \<open>
  C10. A request whose messages are not empty and whose last message has a non-empty
  content is not rejected, whatever its roles are: the run starts the backend selection
  (its first event is the call for the credentials, or the notice of the local branch).
  Rewriting the roles of all messages in any way leaves the outcome unchanged.
\<close>

theorem validation_ignores_role:
  assumes "json request = Inr (JsonValue requestBody)" and "messages requestBody = Some msgs"
    and "msgs \<noteq> []" and "content (last msgs) = Some question" and "question \<noteq> []"
  shows "status (fst (postChat w request)) \<noteq> BadRequest
     \<and> (\<exists>evs. snd (postChat w request) =
           (if truthy (AZURE_OPENAI_API_ENDPOINT w) then Called GetCredentials
            else Log ''No Azure OpenAI endpoint set, using Ollama models and local DB'') # evs)
     \<and> postChat w \<lparr>json = Inr (JsonValue \<lparr>messages = Some (map (\<lambda>m. m\<lparr>role := r m\<rparr>) msgs)\<rparr>)\<rparr> =
       postChat w request"
proof (intro conjI)
  show "status (fst (postChat w request)) \<noteq> BadRequest"
    using valid_response_status [OF assms, of w] by auto
  show "\<exists>evs. snd (postChat w request) =
           (if truthy (AZURE_OPENAI_API_ENDPOINT w) then Called GetCredentials
            else Log ''No Azure OpenAI endpoint set, using Ollama models and local DB'') # evs"
    by (rule valid_first_event [OF assms])
  have "request = \<lparr>json = Inr (JsonValue \<lparr>messages = Some msgs\<rparr>)\<rparr>"
    using assms(1,2) by (cases request, cases requestBody) simp
  then show "postChat w \<lparr>json = Inr (JsonValue \<lparr>messages = Some (map (\<lambda>m. m\<lparr>role := r m\<rparr>) msgs)\<rparr>)\<rparr> =
       postChat w request"
    using postChat_role [of w r "Some msgs"] by simp
qed

theorem validation_ignores_role_witness:
  "status (fst (postChat local_world odd_roles_request)) \<noteq> BadRequest
   \<and> (\<exists>evs. snd (postChat local_world odd_roles_request) =
         Log ''No Azure OpenAI endpoint set, using Ollama models and local DB'' # evs)"
proof -
  have h1: "json odd_roles_request = Inr (JsonValue \<lparr>messages = Some
        [\<lparr>role = None, content = Some ''Hello''\<rparr>,
         \<lparr>role = Some ''wizard'', content = Some ''Where should I move?''\<rparr>]\<rparr>)"
    by (simp add: odd_roles_request_def)
  have h2: "messages \<lparr>messages = Some
        [\<lparr>role = None, content = Some ''Hello''\<rparr>,
         \<lparr>role = Some ''wizard'', content = Some ''Where should I move?''\<rparr>]\<rparr> =
      Some [\<lparr>role = None, content = Some ''Hello''\<rparr>,
         \<lparr>role = Some ''wizard'', content = Some ''Where should I move?''\<rparr>]"
    by simp
  have h3: "[\<lparr>role = None, content = Some ''Hello''\<rparr>,
         \<lparr>role = Some ''wizard'', content = Some ''Where should I move?''\<rparr>] \<noteq> []"
    by simp
  have h4: "content (last [\<lparr>role = None, content = Some ''Hello''\<rparr>,
         \<lparr>role = Some ''wizard'', content = Some ''Where should I move?''\<rparr>]) =
      Some ''Where should I move?''"
    by simp
  have h5: "''Where should I move?'' \<noteq> []"
    by simp
  have "\<not> truthy (AZURE_OPENAI_API_ENDPOINT local_world)"
    by (simp add: local_world_def)
  then show ?thesis
    using validation_ignores_role [OF h1 h2 h3 h4 h5, of local_world] by simp
qed

text \<open>
  C9. Two requests that pass validation with the same content in their last message have
  the same outcome in every world: the same response and the same trace, which holds the
  query of the retrieval and the input and documents given to the chain. When nothing is
  thrown, the model is asked with the system prompt, completed by the rendered documents,
  and the last message's content, and with nothing else.
\<close>

theorem earlier_messages_without_influence:
  assumes "json request1 = Inr (JsonValue requestBody1)" and "messages requestBody1 = Some msgs1"
    and "msgs1 \<noteq> []" and "content (last msgs1) = Some question"
    and "json request2 = Inr (JsonValue requestBody2)" and "messages requestBody2 = Some msgs2"
    and "msgs2 \<noteq> []" and "content (last msgs2) = Some question"
    and "question \<noteq> []"
  shows "postChat w request1 = postChat w request2
     \<and> ((\<forall>m. LogError m \<notin> set (snd (postChat w request1))) \<longrightarrow>
          (\<exists>rendered. body (fst (postChat w request1)) =
             Stream (createJsonStream
               (chat_stream w (selected_model w)
                  [(''system'', systemInstructions @ rendered), (''human'', question)]))))"
proof (intro conjI impI)
  show "postChat w request1 = postChat w request2"
    using postChat_try_valid [OF assms(1-4) assms(9), of w]
      postChat_try_valid [OF assms(5-8) assms(9), of w]
    by (simp add: postChat_def)
next
  assume quiet: "\<forall>m. LogError m \<notin> set (snd (postChat w request1))"
  show "\<exists>rendered. body (fst (postChat w request1)) =
             Stream (createJsonStream
               (chat_stream w (selected_model w)
                  [(''system'', systemInstructions @ rendered), (''human'', question)]))"
    using quiet
    by (auto simp: postChat_valid [OF assms(1-4) assms(9)] data_def
        split: option.splits sum.splits dest!: finish_data)
qed

theorem earlier_messages_without_influence_witness:
  "postChat cloud_world one_message_request = postChat cloud_world three_message_request"
proof -
  have a1: "json one_message_request =
      Inr (JsonValue \<lparr>messages = Some [\<lparr>role = Some ''user'', content = Some ''Where should I move?''\<rparr>]\<rparr>)"
    by (simp add: one_message_request_def)
  have a2: "messages \<lparr>messages = Some [\<lparr>role = Some ''user'', content = Some ''Where should I move?''\<rparr>]\<rparr>
      = Some [\<lparr>role = Some ''user'', content = Some ''Where should I move?''\<rparr>]"
    by simp
  have a3: "[\<lparr>role = Some ''user'', content = Some ''Where should I move?''\<rparr>] \<noteq> []"
    by simp
  have a4: "content (last [\<lparr>role = Some ''user'', content = Some ''Where should I move?''\<rparr>]) =
      Some ''Where should I move?''"
    by simp
  have b1: "json three_message_request = Inr (JsonValue \<lparr>messages = Some
        [\<lparr>role = Some ''user'', content = Some ''Hello''\<rparr>,
         \<lparr>role = Some ''assistant'', content = Some ''How can I help?''\<rparr>,
         \<lparr>role = Some ''user'', content = Some ''Where should I move?''\<rparr>]\<rparr>)"
    by (simp add: three_message_request_def)
  have b2: "messages \<lparr>messages = Some
        [\<lparr>role = Some ''user'', content = Some ''Hello''\<rparr>,
         \<lparr>role = Some ''assistant'', content = Some ''How can I help?''\<rparr>,
         \<lparr>role = Some ''user'', content = Some ''Where should I move?''\<rparr>]\<rparr> = Some
        [\<lparr>role = Some ''user'', content = Some ''Hello''\<rparr>,
         \<lparr>role = Some ''assistant'', content = Some ''How can I help?''\<rparr>,
         \<lparr>role = Some ''user'', content = Some ''Where should I move?''\<rparr>]"
    by simp
  have b3: "[\<lparr>role = Some ''user'', content = Some ''Hello''\<rparr>,
         \<lparr>role = Some ''assistant'', content = Some ''How can I help?''\<rparr>,
         \<lparr>role = Some ''user'', content = Some ''Where should I move?''\<rparr>] \<noteq> []"
    by simp
  have b4: "content (last [\<lparr>role = Some ''user'', content = Some ''Hello''\<rparr>,
         \<lparr>role = Some ''assistant'', content = Some ''How can I help?''\<rparr>,
         \<lparr>role = Some ''user'', content = Some ''Where should I move?''\<rparr>]) =
      Some ''Where should I move?''"
    by simp
  have q: "''Where should I move?'' \<noteq> []"
    by simp
  show ?thesis
    using earlier_messages_without_influence [OF a1 a2 a3 a4 b1 b2 b3 b4 q, of cloud_world]
    by simp
qed

section \<open>Claims about failures and the success response\<close>

lemma called_only_after_validation:
  assumes "Called c \<in> set (snd (postChat w request))"
  shows "\<exists>requestBody msgs question.
     json request = Inr (JsonValue requestBody) \<and> messages requestBody = Some msgs \<and> msgs \<noteq> [] \<and>
     content (last msgs) = Some question \<and> question \<noteq> []"
proof (cases "json request")
  case (Inl e)
  with assms show ?thesis
    by (simp add: postChat_def postChat_try_def bind_lift_Inl throw_run)
next
  case (Inr parsed)
  show ?thesis
  proof (cases parsed)
    case JsonNull
    with Inr assms show ?thesis
      by (simp add: postChat_def postChat_try_def bind_lift_Inr bind_lift_Inl throw_run)
  next
    case (JsonValue requestBody)
    note Inr = Inr [unfolded JsonValue]
    show ?thesis
  proof (cases "messages requestBody")
    case None
    with Inr assms show ?thesis
      by (simp add: postChat_def postChat_try_def bind_lift_Inr returns_run)
  next
    case (Some msgs)
    show ?thesis
    proof (cases "msgs = []")
      case True
      with Inr Some assms show ?thesis
        by (simp add: postChat_def postChat_try_def bind_lift_Inr returns_run)
    next
      case False
      show ?thesis
      proof (cases "content (last msgs)")
        case None
        with Inr Some False assms show ?thesis
          by (simp add: postChat_def postChat_try_def bind_lift_Inr returns_run)
      next
        case (Some question)
        show ?thesis
        proof (cases "question = []")
          case True
          with Inr \<open>messages requestBody = Some msgs\<close> False Some assms show ?thesis
            by (simp add: postChat_def postChat_try_def bind_lift_Inr returns_run)
        next
          case nonempty: False
          with Inr \<open>messages requestBody = Some msgs\<close> False Some show ?thesis
            by blast
        qed
      qed
    qed
  qed
  qed
qed

lemma no_LogError_in_calls: "LogError m \<notin> set (fallback_log w @ map Called cs)"
  by (auto simp: fallback_log_def)

lemma quiet_run:
  assumes "json request = Inr (JsonValue requestBody)" and "messages requestBody = Some msgs"
    and "msgs \<noteq> []" and "content (last msgs) = Some question" and "question \<noteq> []"
    and "\<forall>c \<in> set (calls_of (snd (postChat w request))). raises w c = None"
  shows "first_error w (planned_calls w question) = None"
  using assms(6) unfolding calls_of_postChat_valid [OF assms(1-5)] by (rule performed_quiet)

lemma last_LogError: "last (xs @ ys @ [LogError m]) = LogError m"
  by simp

text \<open>
  C4, as amended. For a request that passes validation, every error thrown while the
  handler is still in its \<^verbatim>\<open>try\<close> block is caught: the error of a call that throws (the
  credential helpers, a constructor, the loading of the index, the creation of the chain
  or of the retriever, the retrieval, the start of the chain), the error of the rendering
  of the documents, and the error of a model that fails before its first chunk. In each
  case the response is \<^verbatim>\<open>ServiceUnavailable\<close> with the fixed text, whatever the error is,
  and the last event is the log of the error's message. Every \<^verbatim>\<open>ServiceUnavailable\<close>
  response is this fixed one. When the stream of the model does not fail at its head, the
  handler answers with the success response and logs nothing, also when the stream
  throws later: that error is not caught, it ends the stream of the body.
\<close>

theorem errors_caught_before_first_chunk:
  assumes "json request = Inr (JsonValue requestBody)" and "messages requestBody = Some msgs"
    and "msgs \<noteq> []" and "content (last msgs) = Some question" and "question \<noteq> []"
    and "postChat w request = (response, tr)"
  shows "(\<forall>c e. c \<in> set (calls_of tr) \<longrightarrow> raises w c = Some e \<longrightarrow>
          response = serviceUnavailable ''Service temporarily unavailable. Please try again later.''
          \<and> last tr = LogError (''Error when processing chat-post request: '' @ message e))
     \<and> ((\<forall>c \<in> set (calls_of tr). raises w c = None) \<longrightarrow>
          (\<forall>e. formatDocuments (ragChain_of (selected_model w))
                 (similaritySearch w (selected_store w) question 3) = Inl e \<longrightarrow>
             response =
               serviceUnavailable ''Service temporarily unavailable. Please try again later.''
             \<and> last tr = LogError (''Error when processing chat-post request: '' @ message e))
          \<and> (\<forall>rendered e.
                formatDocuments (ragChain_of (selected_model w))
                  (similaritySearch w (selected_store w) question 3) = Inr rendered \<longrightarrow>
                chat_stream w (selected_model w)
                  [(''system'', systemInstructions @ rendered), (''human'', question)] = Throw e \<longrightarrow>
                response =
                  serviceUnavailable ''Service temporarily unavailable. Please try again later.''
                \<and> last tr = LogError (''Error when processing chat-post request: '' @ message e))
          \<and> (\<forall>rendered.
                formatDocuments (ragChain_of (selected_model w))
                  (similaritySearch w (selected_store w) question 3) = Inr rendered \<longrightarrow>
                (\<forall>e. chat_stream w (selected_model w)
                       [(''system'', systemInstructions @ rendered), (''human'', question)] \<noteq> Throw e) \<longrightarrow>
                response =
                  data (createJsonStream
                          (chat_stream w (selected_model w)
                             [(''system'', systemInstructions @ rendered), (''human'', question)]))
                    [(''Content-Type'', ''application/x-ndjson''), (''Transfer-Encoding'', ''chunked'')]
                \<and> (\<forall>m. LogError m \<notin> set tr)
                \<and> failure (createJsonStream
                            (chat_stream w (selected_model w)
                               [(''system'', systemInstructions @ rendered), (''human'', question)])) =
                    failure (chat_stream w (selected_model w)
                               [(''system'', systemInstructions @ rendered), (''human'', question)])))
     \<and> (status response = ServiceUnavailable \<longrightarrow>
          response = serviceUnavailable ''Service temporarily unavailable. Please try again later.''
          \<and> body response = Message ''Service temporarily unavailable. Please try again later.''
          \<and> (\<exists>e. last tr = LogError (''Error when processing chat-post request: '' @ message e)))"
proof -
  let ?plan = "planned_calls w question"
  let ?fixed = "serviceUnavailable ''Service temporarily unavailable. Please try again later.''"
  have response: "response = fst (postChat w request)" and tr: "tr = snd (postChat w request)"
    using assms(6) by simp_all
  have calls: "calls_of tr = performed w ?plan"
    unfolding tr by (rule calls_of_postChat_valid [OF assms(1-5)])
  have thrown: "response = ?fixed
      \<and> last tr = LogError (''Error when processing chat-post request: '' @ message e)"
    if "c \<in> set (calls_of tr)" and "raises w c = Some e" for c e
  proof -
    have "first_error w ?plan = Some e"
      using that unfolding calls by (rule performed_raises)
    then show ?thesis
      unfolding response tr by (simp add: postChat_valid [OF assms(1-5)])
  qed
  have quiet: "first_error w ?plan = None" if "\<forall>c \<in> set (calls_of tr). raises w c = None"
    using that unfolding tr by (rule quiet_run [OF assms(1-5)])
  have rendering: "response = ?fixed
      \<and> last tr = LogError (''Error when processing chat-post request: '' @ message e)"
    if "\<forall>c \<in> set (calls_of tr). raises w c = None"
      and "formatDocuments (ragChain_of (selected_model w))
                 (similaritySearch w (selected_store w) question 3) = Inl e" for e
    using quiet [OF that(1)] that(2) unfolding response tr
    by (simp add: postChat_valid [OF assms(1-5)] finish_def)
  have head: "response = ?fixed
      \<and> last tr = LogError (''Error when processing chat-post request: '' @ message e)"
    if "\<forall>c \<in> set (calls_of tr). raises w c = None"
      and "formatDocuments (ragChain_of (selected_model w))
                 (similaritySearch w (selected_store w) question 3) = Inr rendered"
      and "chat_stream w (selected_model w)
                  [(''system'', systemInstructions @ rendered), (''human'', question)] = Throw e"
    for rendered e
    using quiet [OF that(1)] that(2,3) unfolding response tr
    by (simp add: postChat_valid [OF assms(1-5)] finish_def)
  have later: "response =
                  data (createJsonStream
                          (chat_stream w (selected_model w)
                             [(''system'', systemInstructions @ rendered), (''human'', question)]))
                    [(''Content-Type'', ''application/x-ndjson''), (''Transfer-Encoding'', ''chunked'')]
                \<and> (\<forall>m. LogError m \<notin> set tr)"
    if "\<forall>c \<in> set (calls_of tr). raises w c = None"
      and "formatDocuments (ragChain_of (selected_model w))
                 (similaritySearch w (selected_store w) question 3) = Inr rendered"
      and "\<forall>e. chat_stream w (selected_model w)
                  [(''system'', systemInstructions @ rendered), (''human'', question)] \<noteq> Throw e"
    for rendered
  proof -
    have "first_chunk (chat_stream w (selected_model w)
                  [(''system'', systemInstructions @ rendered), (''human'', question)]) =
          Inr (chat_stream w (selected_model w)
                  [(''system'', systemInstructions @ rendered), (''human'', question)])"
      using that(3) by (simp add: first_chunk_Inr)
    then show ?thesis
      using quiet [OF that(1)] that(2) no_LogError_in_calls unfolding response tr
      by (simp add: postChat_valid [OF assms(1-5)] finish_def del: set_append)
  qed
  have unavailable: "response = ?fixed
          \<and> body response = Message ''Service temporarily unavailable. Please try again later.''
          \<and> (\<exists>e. last tr = LogError (''Error when processing chat-post request: '' @ message e))"
    if "status response = ServiceUnavailable"
    using that unfolding response tr
    by (auto simp: postChat_valid [OF assms(1-5)] serviceUnavailable_def data_def
        split: option.splits sum.splits dest!: finish_data)
  show ?thesis
    using thrown rendering head later unavailable
    by (simp add: failure_createJsonStream)
qed

theorem errors_caught_before_first_chunk_witness:
  "fst (postChat search_fails_world one_message_request) =
     serviceUnavailable ''Service temporarily unavailable. Please try again later.''
   \<and> last (snd (postChat search_fails_world one_message_request)) =
     LogError ''Error when processing chat-post request: index unavailable''
   \<and> fst (postChat unnamed_document_world one_message_request) =
     serviceUnavailable ''Service temporarily unavailable. Please try again later.''
   \<and> last (snd (postChat unnamed_document_world one_message_request)) =
     LogError ''Error when processing chat-post request: Missing value for input source''
   \<and> fst (postChat model_down_world one_message_request) =
     serviceUnavailable ''Service temporarily unavailable. Please try again later.''
   \<and> last (snd (postChat model_down_world one_message_request)) =
     LogError ''Error when processing chat-post request: model not loaded''
   \<and> status (fst (postChat stream_breaks_world one_message_request)) = Ok
   \<and> failure (case body (fst (postChat stream_breaks_world one_message_request)) of
                Stream s \<Rightarrow> s | Message m \<Rightarrow> Done) = Some (Error ''connection reset'')"
proof -
  have valid: "json one_message_request =
      Inr (JsonValue \<lparr>messages = Some [\<lparr>role = Some ''user'', content = Some ''Where should I move?''\<rparr>]\<rparr>)"
    "messages \<lparr>messages = Some [\<lparr>role = Some ''user'', content = Some ''Where should I move?''\<rparr>]\<rparr>
      = Some [\<lparr>role = Some ''user'', content = Some ''Where should I move?''\<rparr>]"
    "[\<lparr>role = Some ''user'', content = Some ''Where should I move?''\<rparr>] \<noteq> []"
    "content (last [\<lparr>role = Some ''user'', content = Some ''Where should I move?''\<rparr>]) =
      Some ''Where should I move?''"
    "''Where should I move?'' \<noteq> []"
    by (simp_all add: one_message_request_def)
  have run: "postChat w one_message_request =
      (fst (postChat w one_message_request), snd (postChat w one_message_request))" for w
    by simp
  have called: "RetrieverInvoke (VectorStoreRetriever (selected_store search_fails_world) 3)
        ''Where should I move?'' \<in> set (calls_of (snd (postChat search_fails_world one_message_request)))"
    by (simp add: calls_of_postChat_valid [OF valid] planned_calls_def
        construction_calls_def pipeline_calls_def search_fails_world_def local_world_def)
  have thrown: "raises search_fails_world
      (RetrieverInvoke (VectorStoreRetriever (selected_store search_fails_world) 3)
        ''Where should I move?'') = Some (Error ''index unavailable'')"
    by (simp add: search_fails_world_def)
  have search: "fst (postChat search_fails_world one_message_request) =
       serviceUnavailable ''Service temporarily unavailable. Please try again later.''
     \<and> last (snd (postChat search_fails_world one_message_request)) =
       LogError ''Error when processing chat-post request: index unavailable''"
    using errors_caught_before_first_chunk [OF valid run, of search_fails_world] called thrown
    by fastforce
  have quiet_doc: "raises unnamed_document_world c = None" for c
    by (simp add: unnamed_document_world_def local_world_def)
  have doc: "formatDocuments (ragChain_of (selected_model unnamed_document_world))
      (similaritySearch unnamed_document_world (selected_store unnamed_document_world)
         ''Where should I move?'' 3) = Inl (Error ''Missing value for input source'')"
    by (simp add: formatDocuments_def formatDocument_def format_def ragChain_of_def
        unnamed_document_world_def local_world_def)
  have rendering: "fst (postChat unnamed_document_world one_message_request) =
       serviceUnavailable ''Service temporarily unavailable. Please try again later.''
     \<and> last (snd (postChat unnamed_document_world one_message_request)) =
       LogError ''Error when processing chat-post request: Missing value for input source''"
    using errors_caught_before_first_chunk [OF valid run, of unnamed_document_world]
    by (simp add: quiet_doc doc)
  have quiet_down: "raises model_down_world c = None" for c
    by (simp add: model_down_world_def local_world_def)
  have docs_down: "formatDocuments (ragChain_of (selected_model model_down_world))
      (similaritySearch model_down_world (selected_store model_down_world)
         ''Where should I move?'' 3) =
      Inr ''[a.txt]: X\<newline>\<newline>\<newline>[b.txt]: Y\<newline>''"
    by (simp add: formatDocuments_def formatDocument_def format_def ragChain_of_def
        DEFAULT_DOCUMENT_SEPARATOR_def model_down_world_def local_world_def example_documents_def)
  have down: "chat_stream model_down_world model ms = Throw (Error ''model not loaded'')" for model ms
    by (simp add: model_down_world_def)
  have head: "fst (postChat model_down_world one_message_request) =
       serviceUnavailable ''Service temporarily unavailable. Please try again later.''
     \<and> last (snd (postChat model_down_world one_message_request)) =
       LogError ''Error when processing chat-post request: model not loaded''"
    using errors_caught_before_first_chunk [OF valid run, of model_down_world]
    by (simp add: quiet_down docs_down down)
  have quiet_breaks: "raises stream_breaks_world c = None" for c
    by (simp add: stream_breaks_world_def local_world_def)
  have docs_breaks: "formatDocuments (ragChain_of (selected_model stream_breaks_world))
      (similaritySearch stream_breaks_world (selected_store stream_breaks_world)
         ''Where should I move?'' 3) =
      Inr ''[a.txt]: X\<newline>\<newline>\<newline>[b.txt]: Y\<newline>''"
    by (simp add: formatDocuments_def formatDocument_def format_def ragChain_of_def
        DEFAULT_DOCUMENT_SEPARATOR_def stream_breaks_world_def local_world_def
        example_documents_def)
  have breaks: "chat_stream stream_breaks_world model ms =
      Yield ''Hel'' (Throw (Error ''connection reset''))" for model ms
    by (simp add: stream_breaks_world_def)
  have later: "status (fst (postChat stream_breaks_world one_message_request)) = Ok
     \<and> failure (case body (fst (postChat stream_breaks_world one_message_request)) of
                Stream s \<Rightarrow> s | Message m \<Rightarrow> Done) = Some (Error ''connection reset'')"
    using errors_caught_before_first_chunk [OF valid run, of stream_breaks_world]
    by (simp add: quiet_breaks docs_breaks breaks data_def)
  show ?thesis
    using search rendering head later by simp
qed

text \<open>
  C4 as stated fails for an error of the generation that comes after the stream has
  started: the handler has returned by then. In the sample world the model yields one
  fragment and then throws; the handler answers with the success response, whose stream
  carries the error, and logs nothing.
\<close>

theorem stream_error_not_caught:
  \<open>status (fst (postChat stream_breaks_world one_message_request)) = Ok
   \<and> body (fst (postChat stream_breaks_world one_message_request)) =
     Stream (Yield ''{"delta":{"content":"Hel","role":"assistant"}}\<newline>''
               (Throw (Error ''connection reset'')))
   \<and> LogError ''Error when processing chat-post request: connection reset''
       \<notin> set (snd (postChat stream_breaks_world one_message_request))\<close>
proof -
  have valid: "json one_message_request =
      Inr (JsonValue \<lparr>messages = Some [\<lparr>role = Some ''user'', content = Some ''Where should I move?''\<rparr>]\<rparr>)"
    "messages \<lparr>messages = Some [\<lparr>role = Some ''user'', content = Some ''Where should I move?''\<rparr>]\<rparr>
      = Some [\<lparr>role = Some ''user'', content = Some ''Where should I move?''\<rparr>]"
    "[\<lparr>role = Some ''user'', content = Some ''Where should I move?''\<rparr>] \<noteq> []"
    "content (last [\<lparr>role = Some ''user'', content = Some ''Where should I move?''\<rparr>]) =
      Some ''Where should I move?''"
    "''Where should I move?'' \<noteq> []"
    by (simp_all add: one_message_request_def)
  have quiet: "first_error stream_breaks_world
      (planned_calls stream_breaks_world ''Where should I move?'') = None"
    by (simp add: first_error_None_iff stream_breaks_world_def local_world_def)
  have fin: \<open>finish stream_breaks_world ''Where should I move?'' =
      Inr (data (Yield ''{"delta":{"content":"Hel","role":"assistant"}}\<newline>''
                   (Throw (Error ''connection reset'')))
             [(''Content-Type'', ''application/x-ndjson''), (''Transfer-Encoding'', ''chunked'')])\<close>
    by (simp add: finish_def formatDocuments_def formatDocument_def format_def ragChain_of_def
        stream_breaks_world_def local_world_def example_documents_def
        responseChunk_def quote_string_def quote_char_def)
  show ?thesis
    using no_LogError_in_calls
    by (simp add: postChat_valid [OF valid] quiet fin data_def del: set_append)
qed

text \<open>
  C8. When a request passes validation and nothing is thrown in the \<^verbatim>\<open>try\<close> block (the
  \<^verbatim>\<open>catch\<close> logs no error), the response is the success response with the headers
  \<^verbatim>\<open>Content-Type: application/x-ndjson\<close> and \<^verbatim>\<open>Transfer-Encoding: chunked\<close>, and its body
  is \<^verbatim>\<open>createJsonStream\<close> applied to the stream of the selected model for the prompt made
  of the system prompt with the rendered documents and of the question.
\<close>

theorem success_response:
  assumes "json request = Inr (JsonValue requestBody)" and "messages requestBody = Some msgs"
    and "msgs \<noteq> []" and "content (last msgs) = Some question" and "question \<noteq> []"
    and "\<forall>m. LogError m \<notin> set (snd (postChat w request))"
  shows "status (fst (postChat w request)) = Ok
     \<and> headers (fst (postChat w request)) =
         [(''Content-Type'', ''application/x-ndjson''), (''Transfer-Encoding'', ''chunked'')]
     \<and> (\<exists>rendered.
           formatDocuments (ragChain_of (selected_model w))
             (similaritySearch w (selected_store w) question 3) = Inr rendered
           \<and> body (fst (postChat w request)) =
               Stream (createJsonStream
                 (chat_stream w (selected_model w)
                    [(''system'', systemInstructions @ rendered), (''human'', question)])))"
  using assms(6)
  by (auto simp: postChat_valid [OF assms(1-5)] data_def
      split: option.splits sum.splits dest!: finish_data)

theorem success_response_witness:
  \<open>status (fst (postChat local_world one_message_request)) = Ok
   \<and> headers (fst (postChat local_world one_message_request)) =
       [(''Content-Type'', ''application/x-ndjson''), (''Transfer-Encoding'', ''chunked'')]
   \<and> body (fst (postChat local_world one_message_request)) =
       Stream (from_list [''{"delta":{"content":"Hel","role":"assistant"}}\<newline>'',
                          ''{"delta":{"content":"lo","role":"assistant"}}\<newline>''])\<close>
proof -
  have valid: "json one_message_request =
      Inr (JsonValue \<lparr>messages = Some [\<lparr>role = Some ''user'', content = Some ''Where should I move?''\<rparr>]\<rparr>)"
    "messages \<lparr>messages = Some [\<lparr>role = Some ''user'', content = Some ''Where should I move?''\<rparr>]\<rparr>
      = Some [\<lparr>role = Some ''user'', content = Some ''Where should I move?''\<rparr>]"
    "[\<lparr>role = Some ''user'', content = Some ''Where should I move?''\<rparr>] \<noteq> []"
    "content (last [\<lparr>role = Some ''user'', content = Some ''Where should I move?''\<rparr>]) =
      Some ''Where should I move?''"
    "''Where should I move?'' \<noteq> []"
    by (simp_all add: one_message_request_def)
  have quiet: "first_error local_world (planned_calls local_world ''Where should I move?'') = None"
    by (simp add: first_error_None_iff local_world_def)
  have fin: "\<exists>response. finish local_world ''Where should I move?'' = Inr response"
    by (simp add: finish_def formatDocuments_def formatDocument_def format_def ragChain_of_def
        local_world_def example_documents_def)
  have nolog: "\<forall>m. LogError m \<notin> set (snd (postChat local_world one_message_request))"
    using fin no_LogError_in_calls
    by (auto simp: postChat_valid [OF valid] quiet simp del: set_append)
  have stream: "chat_stream local_world model ms = from_list [''Hel'', ''lo'', '''']" for model ms
    by (simp add: local_world_def)
  show ?thesis
    using success_response [OF valid nolog]
    by (auto simp: stream responseChunk_def quote_string_def quote_char_def)
qed

section \<open>Claims about the rendering of the documents\<close>

lemma formatDocument_source:
  "map_of (metadata d) ''source'' = Some s \<Longrightarrow>
   formatDocument ''[{source}]: {page_content}\<newline>'' d =
     Inr (''['' @ s @ '']: '' @ pageContent d @ ''\<newline>'')"
  by (simp add: formatDocument_def format_def)

lemma formatEach_sources:
  "\<forall>d \<in> set documents. map_of (metadata d) ''source'' = Some (sourceId d) \<Longrightarrow>
   formatEach ''[{source}]: {page_content}\<newline>'' documents =
     Inr (map (\<lambda>d. ''['' @ sourceId d @ '']: '' @ pageContent d @ ''\<newline>'') documents)"
  by (induction documents) (simp_all add: formatDocument_source)

text \<open>
  C5, as amended. Each retrieved document whose metadata names its source is rendered as
  \<^verbatim>\<open>"[" + sourceId + "]: " + content + "\n"\<close>, and the renderings are joined in the order
  of retrieval with the separator of the chain. The handler passes no separator to
  \<^verbatim>\<open>createStuffDocumentsChain\<close>, so this is the library's default of two newlines: between
  two documents there are three newlines, and after the last one there is one.
\<close>

theorem rendered_documents:
  assumes "\<forall>d \<in> set documents. map_of (metadata d) ''source'' = Some (sourceId d)"
  shows "formatDocuments (ragChain_of model) documents =
     Inr (join (map (\<lambda>d. ''['' @ sourceId d @ '']: '' @ pageContent d @ ''\<newline>'') documents)
            ''\<newline>\<newline>'')"
  using formatEach_sources [OF assms]
  by (simp add: formatDocuments_def ragChain_of_def DEFAULT_DOCUMENT_SEPARATOR_def)

theorem rendered_documents_witness:
  "formatDocuments (ragChain_of (ChatOllama (7 / 10) ''llama3''))
     [\<lparr>pageContent = ''X'', metadata = [(''source'', ''a.txt'')]\<rparr>,
      \<lparr>pageContent = ''Y'', metadata = [(''source'', ''b.txt'')]\<rparr>] =
   Inr ''[a.txt]: X\<newline>\<newline>\<newline>[b.txt]: Y\<newline>''"
proof -
  have h: "\<forall>d \<in> set [\<lparr>pageContent = ''X'', metadata = [(''source'', ''a.txt'')]\<rparr>,
                       \<lparr>pageContent = ''Y'', metadata = [(''source'', ''b.txt'')]\<rparr>].
      map_of (metadata d) ''source'' =
        Some ((\<lambda>d. if pageContent d = ''X'' then ''a.txt'' else ''b.txt'') d)"
    by simp
  show ?thesis
    using rendered_documents [OF h, of "ChatOllama (7 / 10) ''llama3''"] by simp
qed

text \<open>
  C5 as stated fails: for the two documents of the specification the rendered context is
  not the plain concatenation \<^verbatim>\<open>"[a.txt]: X\n[b.txt]: Y\n"\<close>.
\<close>

theorem rendered_documents_not_concatenated:
  "formatDocuments (ragChain_of (ChatOllama (7 / 10) ''llama3''))
     [\<lparr>pageContent = ''X'', metadata = [(''source'', ''a.txt'')]\<rparr>,
      \<lparr>pageContent = ''Y'', metadata = [(''source'', ''b.txt'')]\<rparr>] \<noteq>
   Inr ''[a.txt]: X\<newline>[b.txt]: Y\<newline>''"
  by (simp add: formatDocuments_def formatDocument_def format_def ragChain_of_def
      DEFAULT_DOCUMENT_SEPARATOR_def)

section \<open>Claims about the backend selection and the retrieval\<close>

lemma filter_performed_prefix: "prefix (filter P (performed w cs)) (filter P cs)"
  by (rule filter_mono_prefix) (rule performed_prefix)

lemma filter_performed_none: "filter P cs = [] \<Longrightarrow> filter P (performed w cs) = []"
  using filter_performed_prefix [of P w cs] by simp

lemma performed_subset: "set (performed w cs) \<subseteq> set cs"
  using performed_prefix [of w cs] by (rule set_mono_prefix)

text \<open>When the calls of \<open>cs\<close> that are made do not throw, the run goes on after \<open>cs\<close>.\<close>

lemma performed_through:
  assumes "\<forall>c \<in> set (performed w (cs @ ds)). c \<in> set cs \<longrightarrow> raises w c = None"
  shows "performed w (cs @ ds) = cs @ performed w ds"
proof -
  have "\<forall>c \<in> set (performed w cs). raises w c = None"
    using assms performed_subset [of w cs] by (auto simp: performed_append)
  then have "first_error w cs = None"
    by (rule performed_quiet)
  then show ?thesis
    by (simp add: performed_append performed_all)
qed

lemma filter_cloud_pipeline: "filter cloud_construction (pipeline_calls w question) = []"
  by (simp add: pipeline_calls_def)

lemma filter_local_pipeline: "filter local_construction (pipeline_calls w question) = []"
  by (simp add: pipeline_calls_def)

lemma construction_calls_cloud:
  "truthy (AZURE_OPENAI_API_ENDPOINT w) \<Longrightarrow> c \<in> set (construction_calls w) \<Longrightarrow>
   c = GetCredentials \<or> c = GetAzureOpenAiTokenProvider \<or> cloud_construction c"
  by (auto simp: construction_calls_def)

lemma construction_calls_local:
  "\<not> truthy (AZURE_OPENAI_API_ENDPOINT w) \<Longrightarrow> c \<in> set (construction_calls w) \<Longrightarrow>
   local_construction c"
  by (auto simp: construction_calls_def)

text \<open>
  C6, as amended. For a request that passes validation: when the endpoint variable is a
  non-empty string, the handler calls the cloud constructors in the order embedder, chat
  model (temperature 0.7), vector store, each at most once, and all three exactly once
  when none of the credential helpers and cloud constructors it calls throws; it calls
  no local constructor and does not log the notice of the local branch. When the variable
  is unset or empty, its first event is that notice, it then calls the local embedder,
  the local chat model (temperature 0.7) and the loading of the local index, each at
  most once, and all three exactly once when none of them throws; it calls no cloud
  constructor.
\<close>

theorem backend_selection:
  assumes "json request = Inr (JsonValue requestBody)" and "messages requestBody = Some msgs"
    and "msgs \<noteq> []" and "content (last msgs) = Some question" and "question \<noteq> []"
    and "postChat w request = (response, tr)"
  shows "(truthy (AZURE_OPENAI_API_ENDPOINT w) \<longrightarrow>
        prefix (filter cloud_construction (calls_of tr))
          [NewEmbeddings (AzureOpenAIEmbeddings AzureADTokenProvider),
           NewChatModel (AzureChatOpenAI (7 / 10) AzureADTokenProvider),
           NewVectorStore
             (AzureCosmosDBNoSQLVectorStore (AzureOpenAIEmbeddings AzureADTokenProvider) Credentials)]
        \<and> ((\<forall>c \<in> set (calls_of tr).
              c = GetCredentials \<or> c = GetAzureOpenAiTokenProvider \<or> cloud_construction c
              \<longrightarrow> raises w c = None) \<longrightarrow>
            filter cloud_construction (calls_of tr) =
              [NewEmbeddings (AzureOpenAIEmbeddings AzureADTokenProvider),
               NewChatModel (AzureChatOpenAI (7 / 10) AzureADTokenProvider),
               NewVectorStore
                 (AzureCosmosDBNoSQLVectorStore (AzureOpenAIEmbeddings AzureADTokenProvider)
                    Credentials)])
        \<and> filter local_construction (calls_of tr) = []
        \<and> Log ''No Azure OpenAI endpoint set, using Ollama models and local DB'' \<notin> set tr)
     \<and> (\<not> truthy (AZURE_OPENAI_API_ENDPOINT w) \<longrightarrow>
        hd tr = Log ''No Azure OpenAI endpoint set, using Ollama models and local DB''
        \<and> prefix (filter local_construction (calls_of tr))
            [NewEmbeddings (OllamaEmbeddings (ollamaEmbeddingsModel w)),
             NewChatModel (ChatOllama (7 / 10) (ollamaChatModel w)),
             FaissStore_load (faissStoreFolder w) (OllamaEmbeddings (ollamaEmbeddingsModel w))]
        \<and> ((\<forall>c \<in> set (calls_of tr). local_construction c \<longrightarrow> raises w c = None) \<longrightarrow>
            filter local_construction (calls_of tr) =
              [NewEmbeddings (OllamaEmbeddings (ollamaEmbeddingsModel w)),
               NewChatModel (ChatOllama (7 / 10) (ollamaChatModel w)),
               FaissStore_load (faissStoreFolder w) (OllamaEmbeddings (ollamaEmbeddingsModel w))])
        \<and> filter cloud_construction (calls_of tr) = [])"
proof -
  let ?plan = "planned_calls w question"
  have tr: "tr = snd (postChat w request)"
    using assms(6) by simp
  have calls: "calls_of tr = performed w ?plan"
    unfolding tr by (rule calls_of_postChat_valid [OF assms(1-5)])
  have shape: "tr = fallback_log w @ map Called (performed w ?plan)
      \<or> (\<exists>m. tr = fallback_log w @ map Called (performed w ?plan) @ [LogError m])"
    unfolding tr by (auto simp: postChat_valid [OF assms(1-5)] split: option.split sum.split)
  show ?thesis
  proof (intro conjI impI)
    assume cloud: "truthy (AZURE_OPENAI_API_ENDPOINT w)"
    have cc: "filter cloud_construction ?plan =
        [NewEmbeddings (AzureOpenAIEmbeddings AzureADTokenProvider),
         NewChatModel (AzureChatOpenAI (7 / 10) AzureADTokenProvider),
         NewVectorStore
           (AzureCosmosDBNoSQLVectorStore (AzureOpenAIEmbeddings AzureADTokenProvider) Credentials)]"
      using cloud by (simp add: planned_calls_def construction_calls_def pipeline_calls_def)
    show "prefix (filter cloud_construction (calls_of tr))
          [NewEmbeddings (AzureOpenAIEmbeddings AzureADTokenProvider),
           NewChatModel (AzureChatOpenAI (7 / 10) AzureADTokenProvider),
           NewVectorStore
             (AzureCosmosDBNoSQLVectorStore (AzureOpenAIEmbeddings AzureADTokenProvider) Credentials)]"
      using filter_performed_prefix [of cloud_construction w ?plan] by (simp add: calls cc)
    have "filter local_construction ?plan = []"
      using cloud by (simp add: planned_calls_def construction_calls_def pipeline_calls_def)
    then show "filter local_construction (calls_of tr) = []"
      unfolding calls by (rule filter_performed_none)
    show "Log ''No Azure OpenAI endpoint set, using Ollama models and local DB'' \<notin> set tr"
      using shape cloud by (auto simp: fallback_log_def)
  next
    assume cloud: "truthy (AZURE_OPENAI_API_ENDPOINT w)"
      and quiet: "\<forall>c \<in> set (calls_of tr).
              c = GetCredentials \<or> c = GetAzureOpenAiTokenProvider \<or> cloud_construction c
              \<longrightarrow> raises w c = None"
    have "\<forall>c \<in> set (performed w (construction_calls w @ pipeline_calls w question)).
        c \<in> set (construction_calls w) \<longrightarrow> raises w c = None"
      using quiet construction_calls_cloud [OF cloud] unfolding calls planned_calls_def
      by blast
    then have "performed w ?plan =
        construction_calls w @ performed w (pipeline_calls w question)"
      unfolding planned_calls_def by (rule performed_through)
    then show "filter cloud_construction (calls_of tr) =
              [NewEmbeddings (AzureOpenAIEmbeddings AzureADTokenProvider),
               NewChatModel (AzureChatOpenAI (7 / 10) AzureADTokenProvider),
               NewVectorStore
                 (AzureCosmosDBNoSQLVectorStore (AzureOpenAIEmbeddings AzureADTokenProvider)
                    Credentials)]"
      using cloud filter_performed_none [OF filter_cloud_pipeline, of w w question]
      by (simp add: calls construction_calls_def)
  next
    assume "local": "\<not> truthy (AZURE_OPENAI_API_ENDPOINT w)"
    show "hd tr = Log ''No Azure OpenAI endpoint set, using Ollama models and local DB''"
      using shape "local" by (auto simp: fallback_log_def)
    have lc: "filter local_construction ?plan =
        [NewEmbeddings (OllamaEmbeddings (ollamaEmbeddingsModel w)),
         NewChatModel (ChatOllama (7 / 10) (ollamaChatModel w)),
         FaissStore_load (faissStoreFolder w) (OllamaEmbeddings (ollamaEmbeddingsModel w))]"
      using "local" by (simp add: planned_calls_def construction_calls_def pipeline_calls_def)
    show "prefix (filter local_construction (calls_of tr))
            [NewEmbeddings (OllamaEmbeddings (ollamaEmbeddingsModel w)),
             NewChatModel (ChatOllama (7 / 10) (ollamaChatModel w)),
             FaissStore_load (faissStoreFolder w) (OllamaEmbeddings (ollamaEmbeddingsModel w))]"
      using filter_performed_prefix [of local_construction w ?plan] by (simp add: calls lc)
    have "filter cloud_construction ?plan = []"
      using "local" by (simp add: planned_calls_def construction_calls_def pipeline_calls_def)
    then show "filter cloud_construction (calls_of tr) = []"
      unfolding calls by (rule filter_performed_none)
  next
    assume "local": "\<not> truthy (AZURE_OPENAI_API_ENDPOINT w)"
      and quiet: "\<forall>c \<in> set (calls_of tr). local_construction c \<longrightarrow> raises w c = None"
    have "\<forall>c \<in> set (performed w (construction_calls w @ pipeline_calls w question)).
        c \<in> set (construction_calls w) \<longrightarrow> raises w c = None"
      using quiet construction_calls_local [OF "local"] unfolding calls planned_calls_def
      by blast
    then have "performed w ?plan =
        construction_calls w @ performed w (pipeline_calls w question)"
      unfolding planned_calls_def by (rule performed_through)
    then show "filter local_construction (calls_of tr) =
              [NewEmbeddings (OllamaEmbeddings (ollamaEmbeddingsModel w)),
               NewChatModel (ChatOllama (7 / 10) (ollamaChatModel w)),
               FaissStore_load (faissStoreFolder w) (OllamaEmbeddings (ollamaEmbeddingsModel w))]"
      using "local" filter_performed_none [OF filter_local_pipeline, of w w question]
      by (simp add: calls construction_calls_def)
  qed
qed

theorem backend_selection_witness:
  "filter cloud_construction (calls_of (snd (postChat cloud_world one_message_request))) =
     [NewEmbeddings (AzureOpenAIEmbeddings AzureADTokenProvider),
      NewChatModel (AzureChatOpenAI (7 / 10) AzureADTokenProvider),
      NewVectorStore
        (AzureCosmosDBNoSQLVectorStore (AzureOpenAIEmbeddings AzureADTokenProvider) Credentials)]
   \<and> filter local_construction (calls_of (snd (postChat cloud_world one_message_request))) = []
   \<and> hd (snd (postChat local_world one_message_request)) =
       Log ''No Azure OpenAI endpoint set, using Ollama models and local DB''
   \<and> filter local_construction (calls_of (snd (postChat local_world one_message_request))) =
     [NewEmbeddings (OllamaEmbeddings ''all-minilm''),
      NewChatModel (ChatOllama (7 / 10) ''llama3''),
      FaissStore_load ''.faiss'' (OllamaEmbeddings ''all-minilm'')]"
proof -
  have valid: "json one_message_request =
      Inr (JsonValue \<lparr>messages = Some [\<lparr>role = Some ''user'', content = Some ''Where should I move?''\<rparr>]\<rparr>)"
    "messages \<lparr>messages = Some [\<lparr>role = Some ''user'', content = Some ''Where should I move?''\<rparr>]\<rparr>
      = Some [\<lparr>role = Some ''user'', content = Some ''Where should I move?''\<rparr>]"
    "[\<lparr>role = Some ''user'', content = Some ''Where should I move?''\<rparr>] \<noteq> []"
    "content (last [\<lparr>role = Some ''user'', content = Some ''Where should I move?''\<rparr>]) =
      Some ''Where should I move?''"
    "''Where should I move?'' \<noteq> []"
    by (simp_all add: one_message_request_def)
  have run_cloud: "postChat cloud_world one_message_request =
      (fst (postChat cloud_world one_message_request), snd (postChat cloud_world one_message_request))"
    by simp
  have run_local: "postChat local_world one_message_request =
      (fst (postChat local_world one_message_request), snd (postChat local_world one_message_request))"
    by simp
  have cloud: "truthy (AZURE_OPENAI_API_ENDPOINT cloud_world)"
    by (simp add: cloud_world_def local_world_def)
  have quiet_cloud: "raises cloud_world c = None" for c
    by (simp add: cloud_world_def local_world_def)
  have "local": "\<not> truthy (AZURE_OPENAI_API_ENDPOINT local_world)"
    by (simp add: local_world_def)
  have quiet_local: "raises local_world c = None" for c
    by (simp add: local_world_def)
  have names: "ollamaEmbeddingsModel local_world = ''all-minilm''"
    "ollamaChatModel local_world = ''llama3''" "faissStoreFolder local_world = ''.faiss''"
    by (simp_all add: local_world_def)
  show ?thesis
    using backend_selection [OF valid run_cloud] backend_selection [OF valid run_local]
    by (simp add: cloud "local" quiet_cloud quiet_local names)
qed

text \<open>
  C6 as stated fails. In the first sample world the endpoint is set and the constructor
  of the cloud embedder throws: the chat model and the vector store are never
  constructed. In the second the variable is present but empty: the handler takes the
  local branch.
\<close>

theorem backend_selection_cut_short:
  "truthy (AZURE_OPENAI_API_ENDPOINT embedder_fails_world)
   \<and> filter cloud_construction (calls_of (snd (postChat embedder_fails_world one_message_request))) =
       [NewEmbeddings (AzureOpenAIEmbeddings AzureADTokenProvider)]
   \<and> AZURE_OPENAI_API_ENDPOINT empty_endpoint_world = Some []
   \<and> filter local_construction (calls_of (snd (postChat empty_endpoint_world one_message_request))) =
       [NewEmbeddings (OllamaEmbeddings ''all-minilm''),
        NewChatModel (ChatOllama (7 / 10) ''llama3''),
        FaissStore_load ''.faiss'' (OllamaEmbeddings ''all-minilm'')]"
proof -
  have valid: "json one_message_request =
      Inr (JsonValue \<lparr>messages = Some [\<lparr>role = Some ''user'', content = Some ''Where should I move?''\<rparr>]\<rparr>)"
    "messages \<lparr>messages = Some [\<lparr>role = Some ''user'', content = Some ''Where should I move?''\<rparr>]\<rparr>
      = Some [\<lparr>role = Some ''user'', content = Some ''Where should I move?''\<rparr>]"
    "[\<lparr>role = Some ''user'', content = Some ''Where should I move?''\<rparr>] \<noteq> []"
    "content (last [\<lparr>role = Some ''user'', content = Some ''Where should I move?''\<rparr>]) =
      Some ''Where should I move?''"
    "''Where should I move?'' \<noteq> []"
    by (simp_all add: one_message_request_def)
  show ?thesis
    by (simp add: calls_of_postChat_valid [OF valid] planned_calls_def construction_calls_def
        pipeline_calls_def embedder_fails_world_def empty_endpoint_world_def cloud_world_def
        local_world_def)
qed









end
